theory Spec2Isabelle
  imports Main
begin

section \<open>Coordinates\<close>

text \<open>
  \<^verbatim>\<open>point\<close> and \<^verbatim>\<open>tripoint\<close> are the game's integer coordinate structs. The C++ \<^verbatim>\<open>int\<close>
  fields are modelled as unbounded integers: the code computes differences of chunk
  coordinates and small products only, and signed overflow is undefined in C++.
\<close>

datatype point = Point (px: int) (py: int)

datatype tripoint = Tripoint (tx: int) (ty: int) (tz: int)

definition xy :: "tripoint \<Rightarrow> point" where
  "xy p = Point (tx p) (ty p)"

definition point_add :: "point \<Rightarrow> point \<Rightarrow> point" where
  "point_add a b = Point (px a + px b) (py a + py b)"

definition tripoint_sub :: "tripoint \<Rightarrow> tripoint \<Rightarrow> tripoint" where
  "tripoint_sub a b = Tripoint (tx a - tx b) (ty a - ty b) (tz a - tz b)"

definition tripoint_add :: "tripoint \<Rightarrow> tripoint \<Rightarrow> tripoint" where
  "tripoint_add a b = Tripoint (tx a + tx b) (ty a + ty b) (tz a + tz b)"

definition tripoint_sub_point :: "tripoint \<Rightarrow> point \<Rightarrow> tripoint" where
  "tripoint_sub_point a b = Tripoint (tx a - px b) (ty a - py b) (tz a)"

definition tripoint_add_point :: "tripoint \<Rightarrow> point \<Rightarrow> tripoint" where
  "tripoint_add_point a b = Tripoint (tx a + px b) (ty a + py b) (tz a)"

text \<open>
  Modelled from the spec: the chunk edge length \<^verbatim>\<open>SEEX\<close>/\<^verbatim>\<open>SEEY\<close> (game_constants.h is not
  among the sources). The spec calls it \<open>S\<close>, a fixed world constant, and its scenario
  uses \<open>S = 12\<close>.
\<close>

definition SEEX :: int where
  "SEEX = 12"

definition SEEY :: int where
  "SEEY = 12"

text \<open>
  Modelled from the spec: \<^verbatim>\<open>ms_to_sm_remain(x, y)\<close> of coordinate_conversions.h, which is
  not among the sources. It overwrites its two reference arguments with the remainders and
  returns the quotients; the spec gives it floor-division semantics:
  \<open>sm = (floor(p.x/S), floor(p.y/S))\<close>, \<open>local = (p.x mod S, p.y mod S)\<close>. The result is
  (quotients, new x, new y). On \<open>int\<close>, HOL's \<open>div\<close> rounds towards minus infinity.
\<close>

definition ms_to_sm_remain :: "int \<Rightarrow> int \<Rightarrow> point \<times> int \<times> int" where
  "ms_to_sm_remain x y = (Point (x div SEEX) (y div SEEY), x mod SEEX, y mod SEEY)"

datatype coord_pair = Coord_Pair (sm: tripoint) (loc: point)

text \<open>
  \<^verbatim>\<open>coord_pair::coord_pair( const tripoint &p ) : loc( p.xy() )\<close>, then
  \<^verbatim>\<open>sm = tripoint( ms_to_sm_remain( loc.x, loc.y ), p.z )\<close>.
\<close>

definition mk_coord_pair :: "tripoint \<Rightarrow> coord_pair" where
  "mk_coord_pair p =
     (let loc0 = xy p;
          (q, rx, ry) = ms_to_sm_remain (px loc0) (py loc0)
      in Coord_Pair (Tripoint (px q) (py q) (tz p)) (Point rx ry))"

section \<open>Chunks of memory\<close>

record memorized_terrain_tile =
  tile :: string
  subtile :: int
  rotation :: int

definition default_tile :: memorized_terrain_tile where
  "default_tile = \<lparr>tile = '''', subtile = 0, rotation = 0\<rparr>"

definition default_symbol :: int where
  "default_symbol = 0"

text \<open>
  \<^verbatim>\<open>memorized_submap\<close> holds two C arrays \<^verbatim>\<open>tiles[SEEX][SEEY]\<close> and \<^verbatim>\<open>symbols[SEEX][SEEY]\<close>.
  An array is a function of its two indices; the accessors below check the indices against
  the array bounds, where C++ has undefined behaviour.
\<close>

record memorized_submap =
  tiles :: "int \<Rightarrow> int \<Rightarrow> memorized_terrain_tile"
  symbols :: "int \<Rightarrow> int \<Rightarrow> int"

text \<open>\<^verbatim>\<open>memorized_submap::memorized_submap()\<close>: every cell holds the defaults.\<close>

definition new_memorized_submap :: memorized_submap where
  "new_memorized_submap = \<lparr>tiles = (\<lambda>_ _. default_tile), symbols = (\<lambda>_ _. default_symbol)\<rparr>"

definition in_array :: "point \<Rightarrow> bool" where
  "in_array l = (0 \<le> px l \<and> px l < SEEX \<and> 0 \<le> py l \<and> py l < SEEY)"

section \<open>Files\<close>

text \<open>
  Modelled from the spec: the JSON layer (\<^verbatim>\<open>memorized_submap::serialize\<close>,
  \<^verbatim>\<open>deserialize\<close> and \<^verbatim>\<open>map_memory::load_legacy\<close> live in files that are not among the
  sources). A file on disk is abstracted by what it parses to: a per-chunk file holding
  the two grids of one chunk, a legacy file holding all remembered chunks with their chunk
  coordinates, or a file on which the parser throws with the given message.
\<close>

datatype mm_file =
    Submap_File memorized_submap
  | Legacy_File "(tripoint \<times> memorized_submap) list"
  | Malformed_File string

definition wrong_format :: string where
  "wrong_format = ''unexpected JSON structure''"

definition deserialize :: "mm_file \<Rightarrow> string + memorized_submap" where
  "deserialize f =
     (case f of
        Submap_File d \<Rightarrow> Inr d
      | Legacy_File _ \<Rightarrow> Inl wrong_format
      | Malformed_File err \<Rightarrow> Inl err)"

definition parse_legacy :: "mm_file \<Rightarrow> string + (tripoint \<times> memorized_submap) list" where
  "parse_legacy f =
     (case f of
        Legacy_File es \<Rightarrow> Inr es
      | Submap_File _ \<Rightarrow> Inl wrong_format
      | Malformed_File err \<Rightarrow> Inl err)"

definition serialize :: "memorized_submap \<Rightarrow> mm_file" where
  "serialize d = Submap_File d"

section \<open>Program state\<close>

type_synonym addr = nat

text \<open>
  A C++ reference to a chunk: either the static \<^verbatim>\<open>null_mz_submap\<close> or an object behind a
  \<^verbatim>\<open>shared_ptr_fast\<close>.
\<close>

datatype submap_ref = Null_Mz_Submap | Shared addr

datatype fault = Assert_Failed | Out_Of_Range | Null_Deref

text \<open>
  The fields of \<^verbatim>\<open>map_memory\<close> (\<open>submaps\<close>, \<open>cached\<close>, \<open>cache_pos\<close>, \<open>cache_size\<close>), the
  static \<^verbatim>\<open>null_mz_submap\<close>, the store of shared chunk objects (\<open>heap\<close>, with the next
  address \<^verbatim>\<open>make_shared_fast\<close> hands out), and the environment the code talks to: the base
  save path of the player, the directories and files on disk, which paths the disk lets
  the program create or write, and the messages \<^verbatim>\<open>debugmsg\<close> has printed.

  \<open>submaps\<close> is a \<^verbatim>\<open>std::map\<close>; it is kept as an association list with distinct keys in
  order of insertion (no claim depends on the order in which \<^verbatim>\<open>save\<close> walks it).
\<close>

record world =
  submaps :: "(tripoint \<times> addr) list"
  cached :: "addr list"
  cache_pos :: tripoint
  cache_size :: point
  null_mz_submap :: memorized_submap
  heap :: "addr \<rightharpoonup> memorized_submap"
  next_addr :: addr
  base_save_path :: string
  dirs :: "string set"
  files :: "string \<rightharpoonup> mm_file"
  writable :: "string \<Rightarrow> bool"
  debug_log :: "string list"

section \<open>Paths and messages\<close>

text \<open>The \<^verbatim>\<open>%d\<close> conversion of \<^verbatim>\<open>string_format\<close>: decimal digits, a minus sign when negative.\<close>

definition digit_char :: "nat \<Rightarrow> char" where
  "digit_char d = ''0123456789'' ! d"

fun decimal :: "nat \<Rightarrow> string \<Rightarrow> string" where
  "decimal n acc =
     (if n < 10 then digit_char n # acc
      else decimal (n div 10) (digit_char (n mod 10) # acc))"

definition format_d :: "int \<Rightarrow> string" where
  "format_d i = (if 0 \<le> i then decimal (nat i) [] else CHR ''-'' # decimal (nat (- i)) [])"

text \<open>
  \<^verbatim>\<open>SAVE_EXTENSION_MAP_MEMORY\<close> is not among the sources; the comment in \<^verbatim>\<open>load\<close> names the
  legacy file \<^verbatim>\<open>[plname].mm\<close>.
\<close>

definition find_legacy_mm_file :: "world \<Rightarrow> string" where
  "find_legacy_mm_file w = base_save_path w @ ''.mm''"

definition find_mm_dir :: "world \<Rightarrow> string" where
  "find_mm_dir w = base_save_path w @ ''.mm1''"

definition find_submap_path :: "string \<Rightarrow> tripoint \<Rightarrow> string" where
  "find_submap_path dirname p =
     dirname @ ''/'' @ format_d (tx p) @ ''.'' @ format_d (ty p) @ ''.''
       @ format_d (tz p) @ ''.mm''"

definition debugmsg :: "string \<Rightarrow> world \<Rightarrow> world" where
  "debugmsg msg w = w\<lparr>debug_log := debug_log w @ [msg]\<rparr>"

text \<open>
  Modelled from the spec: the file-system helpers of filesystem.h and cata_utility.h, which
  are not among the sources. \<open>writable w path\<close> stands for every condition of the disk
  under which creating or writing \<open>path\<close> succeeds. A failed write leaves the disk as it
  was and returns false.
\<close>

definition dir_exist :: "string \<Rightarrow> world \<Rightarrow> bool" where
  "dir_exist dirname w = (dirname \<in> dirs w)"

definition file_exist :: "string \<Rightarrow> world \<Rightarrow> bool" where
  "file_exist path w = (files w path \<noteq> None)"

definition assure_dir_exist :: "string \<Rightarrow> world \<Rightarrow> bool \<times> world" where
  "assure_dir_exist dirname w =
     (if dir_exist dirname w then (True, w)
      else if writable w dirname then (True, w\<lparr>dirs := insert dirname (dirs w)\<rparr>)
      else (False, w))"

definition write_to_file :: "string \<Rightarrow> mm_file \<Rightarrow> world \<Rightarrow> bool \<times> world" where
  "write_to_file path content w =
     (if writable w path then (True, w\<lparr>files := (files w)(path \<mapsto> content)\<rparr>)
      else (False, w))"

section \<open>The window lookup and the per-cell operations\<close>

text \<open>
  \<^verbatim>\<open>map_memory::get_submap\<close>, the const and the non-const overload (their bodies are the
  same). The vector access \<^verbatim>\<open>cached[...]\<close> is checked against the vector's length.
\<close>

definition get_submap :: "tripoint \<Rightarrow> world \<Rightarrow> fault + submap_ref" where
  "get_submap sm_pos w =
     (let idx = xy (tripoint_sub sm_pos (cache_pos w)) in
      if px idx > 0 \<and> py idx > 0 \<and> px idx < px (cache_size w) \<and> py idx < py (cache_size w)
      then (let i = py idx * px (cache_size w) + px idx in
            if 0 \<le> i \<and> i < int (length (cached w)) then Inr (Shared (cached w ! nat i))
            else Inl Out_Of_Range)
      else Inr Null_Mz_Submap)"

text \<open>Reading and writing through a chunk reference.\<close>

definition deref :: "submap_ref \<Rightarrow> world \<Rightarrow> fault + memorized_submap" where
  "deref r w =
     (case r of
        Null_Mz_Submap \<Rightarrow> Inr (null_mz_submap w)
      | Shared a \<Rightarrow> (case heap w a of None \<Rightarrow> Inl Null_Deref | Some d \<Rightarrow> Inr d))"

definition assign :: "submap_ref \<Rightarrow> memorized_submap \<Rightarrow> world \<Rightarrow> world" where
  "assign r d w =
     (case r of
        Null_Mz_Submap \<Rightarrow> w\<lparr>null_mz_submap := d\<rparr>
      | Shared a \<Rightarrow> w\<lparr>heap := (heap w)(a \<mapsto> d)\<rparr>)"

definition set_tile :: "point \<Rightarrow> memorized_terrain_tile \<Rightarrow> memorized_submap \<Rightarrow> memorized_submap" where
  "set_tile l v d = d\<lparr>tiles := (tiles d)(px l := (tiles d (px l))(py l := v))\<rparr>"

definition set_symbol :: "point \<Rightarrow> int \<Rightarrow> memorized_submap \<Rightarrow> memorized_submap" where
  "set_symbol l v d = d\<lparr>symbols := (symbols d)(px l := (symbols d (px l))(py l := v))\<rparr>"

definition get_tile :: "tripoint \<Rightarrow> world \<Rightarrow> fault + memorized_terrain_tile" where
  "get_tile pos w =
     (let p = mk_coord_pair pos in
      case get_submap (sm p) w of
        Inl e \<Rightarrow> Inl e
      | Inr r \<Rightarrow>
          (case deref r w of
             Inl e \<Rightarrow> Inl e
           | Inr d \<Rightarrow>
               if in_array (loc p) then Inr (tiles d (px (loc p)) (py (loc p)))
               else Inl Out_Of_Range))"

definition memorize_tile :: "tripoint \<Rightarrow> string \<Rightarrow> int \<Rightarrow> int \<Rightarrow> world \<Rightarrow> fault + world" where
  "memorize_tile pos ter subtile_arg rotation_arg w =
     (let p = mk_coord_pair pos in
      case get_submap (sm p) w of
        Inl e \<Rightarrow> Inl e
      | Inr r \<Rightarrow>
          (case deref r w of
             Inl e \<Rightarrow> Inl e
           | Inr d \<Rightarrow>
               if in_array (loc p)
               then Inr (assign r
                      (set_tile (loc p)
                         \<lparr>tile = ter, subtile = subtile_arg, rotation = rotation_arg\<rparr> d) w)
               else Inl Out_Of_Range))"

definition get_symbol :: "tripoint \<Rightarrow> world \<Rightarrow> fault + int" where
  "get_symbol pos w =
     (let p = mk_coord_pair pos in
      case get_submap (sm p) w of
        Inl e \<Rightarrow> Inl e
      | Inr r \<Rightarrow>
          (case deref r w of
             Inl e \<Rightarrow> Inl e
           | Inr d \<Rightarrow>
               if in_array (loc p) then Inr (symbols d (px (loc p)) (py (loc p)))
               else Inl Out_Of_Range))"

definition memorize_symbol :: "tripoint \<Rightarrow> int \<Rightarrow> world \<Rightarrow> fault + world" where
  "memorize_symbol pos symbol w =
     (let p = mk_coord_pair pos in
      case get_submap (sm p) w of
        Inl e \<Rightarrow> Inl e
      | Inr r \<Rightarrow>
          (case deref r w of
             Inl e \<Rightarrow> Inl e
           | Inr d \<Rightarrow>
               if in_array (loc p) then Inr (assign r (set_symbol (loc p) symbol d) w)
               else Inl Out_Of_Range))"

definition clear_memorized_tile :: "tripoint \<Rightarrow> world \<Rightarrow> fault + world" where
  "clear_memorized_tile pos w =
     (let p = mk_coord_pair pos in
      case get_submap (sm p) w of
        Inl e \<Rightarrow> Inl e
      | Inr r \<Rightarrow>
          (case deref r w of
             Inl e \<Rightarrow> Inl e
           | Inr d \<Rightarrow>
               if in_array (loc p)
               then Inr (assign r
                      (set_tile (loc p) default_tile (set_symbol (loc p) default_symbol d)) w)
               else Inl Out_Of_Range))"

section \<open>The chunk store\<close>

text \<open>\<^verbatim>\<open>map_memory::allocate_submap\<close>: \<^verbatim>\<open>make_shared_fast<memorized_submap>()\<close>.\<close>

definition allocate_submap :: "world \<Rightarrow> addr \<times> world" where
  "allocate_submap w =
     (next_addr w,
      w\<lparr>heap := (heap w)(next_addr w \<mapsto> new_memorized_submap), next_addr := Suc (next_addr w)\<rparr>)"

text \<open>The last \<^verbatim>\<open>shared_ptr_fast\<close> to an object goes out of scope.\<close>

definition release :: "addr \<Rightarrow> world \<Rightarrow> world" where
  "release a w = w\<lparr>heap := (heap w)(a := None)\<rparr>"

definition load_failure_msg :: "tripoint \<Rightarrow> string \<Rightarrow> string" where
  "load_failure_msg sm_pos err =
     ''Failed to load memory submap ('' @ format_d (tx sm_pos) @ '','' @
       format_d (ty sm_pos) @ '','' @ format_d (tz sm_pos) @ ''): '' @ err"

text \<open>
  \<^verbatim>\<open>map_memory::load_submap\<close>. \<^verbatim>\<open>read_from_file_optional_json(path, loader)\<close> (not among
  the sources) returns false when no file is at \<open>path\<close>; otherwise it runs \<open>loader\<close> on the
  file, which allocates the chunk and deserializes into it, and returns true; the parser's
  exception reaches the \<^verbatim>\<open>catch\<close> of \<^verbatim>\<open>load_submap\<close>. The result is the pointer the function
  returns (\<open>None\<close> for \<^verbatim>\<open>nullptr\<close>).
\<close>

definition load_submap :: "tripoint \<Rightarrow> world \<Rightarrow> addr option \<times> world" where
  "load_submap sm_pos w =
     (let dirname = find_mm_dir w;
          path = find_submap_path dirname sm_pos in
      if \<not> dir_exist dirname w then (None, w)
      else
        (case files w path of
           None \<Rightarrow> (None, w)
         | Some f \<Rightarrow>
             (let (a, w1) = allocate_submap w in
              case deserialize f of
                Inr d \<Rightarrow> (Some a, assign (Shared a) d w1)
              | Inl err \<Rightarrow> (None, release a (debugmsg (load_failure_msg sm_pos err) w1)))))"

text \<open>\<^verbatim>\<open>map_memory::fetch_submap\<close>.\<close>

definition fetch_submap :: "tripoint \<Rightarrow> world \<Rightarrow> addr \<times> world" where
  "fetch_submap sm_pos w =
     (case map_of (submaps w) sm_pos of
        None \<Rightarrow>
          (let (r, w1) = load_submap sm_pos w;
               (sm1, w2) = (case r of None \<Rightarrow> allocate_submap w1 | Some a \<Rightarrow> (a, w1))
           in (sm1, w2\<lparr>submaps := submaps w2 @ [(sm_pos, sm1)]\<rparr>))
      | Some a \<Rightarrow> (a, w))"

section \<open>The window cache\<close>

text \<open>
  The body of the two nested loops of \<^verbatim>\<open>prepare_region\<close>: one \<^verbatim>\<open>push_back\<close> of a fetched
  chunk. The loops run over \<open>List.product [0..<size.y] [0..<size.x]\<close>, that is \<open>dy\<close> outer
  and \<open>dx\<close> inner.
\<close>

definition push_fetched :: "nat \<times> nat \<Rightarrow> world \<Rightarrow> world" where
  "push_fetched d w =
     (let (a, w1) = fetch_submap (tripoint_add_point (cache_pos w) (Point (int (snd d)) (int (fst d)))) w
      in w1\<lparr>cached := cached w1 @ [a]\<rparr>)"

text \<open>
  \<^verbatim>\<open>map_memory::prepare_region\<close>. A failed \<^verbatim>\<open>assert\<close> ends the call with a fault.
  \<^verbatim>\<open>cached.clear()\<close> empties the vector; \<^verbatim>\<open>cached.reserve(...)\<close> changes its capacity
  only, and under the two asserts both sides of the size are at least 2.
\<close>

definition prepare_region :: "tripoint \<Rightarrow> tripoint \<Rightarrow> world \<Rightarrow> fault + world" where
  "prepare_region p1 p2 w =
     (if tz p1 \<noteq> tz p2 then Inl Assert_Failed
      else if \<not> (tx p1 \<le> tx p2 \<and> ty p1 \<le> ty p2) then Inl Assert_Failed
      else
        (let sm_pos = tripoint_sub_point (sm (mk_coord_pair p1)) (Point 1 1);
             sm_size = point_add (xy (tripoint_sub (sm (mk_coord_pair p2)) sm_pos)) (Point 1 1) in
         if sm_pos = cache_pos w \<and> sm_size = cache_size w then Inr w
         else Inr (fold push_fetched
                     (List.product [0..<nat (py sm_size)] [0..<nat (px sm_size)])
                     (w\<lparr>cache_pos := sm_pos, cache_size := sm_size, cached := []\<rparr>))))"

section \<open>Loading and saving\<close>

text \<open>
  Modelled from the spec: \<^verbatim>\<open>map_memory::load_legacy\<close> (not among the sources), which
  "populates the Chunk Store directly" from the parsed legacy file: every chunk of the file
  is written to the chunk tracked under its coordinate, which is allocated and registered
  when the store does not track the coordinate yet.
\<close>

definition load_legacy_entry :: "tripoint \<times> memorized_submap \<Rightarrow> world \<Rightarrow> world" where
  "load_legacy_entry e w =
     (case map_of (submaps w) (fst e) of
        Some a \<Rightarrow> assign (Shared a) (snd e) w
      | None \<Rightarrow>
          (let (a, w1) = allocate_submap w
           in assign (Shared a) (snd e) (w1\<lparr>submaps := submaps w1 @ [(fst e, a)]\<rparr>)))"

definition load_legacy :: "(tripoint \<times> memorized_submap) list \<Rightarrow> world \<Rightarrow> world" where
  "load_legacy es w = fold load_legacy_entry es w"

definition fetch_only :: "tripoint \<Rightarrow> nat \<times> nat \<Rightarrow> world \<Rightarrow> world" where
  "fetch_only start d w =
     snd (fetch_submap (tripoint_add start (Tripoint (int (snd d)) (int (fst d)) 0)) w)"

text \<open>
  \<^verbatim>\<open>map_memory::load\<close>. \<^verbatim>\<open>MAPSIZE\<close>, the side of the visible area in chunks, is defined in a
  header that is not among the sources and is the first argument here;
  \<^verbatim>\<open>MM_SIZE\<close> is \<^verbatim>\<open>(MAPSIZE * 2)\<close>, and \<^verbatim>\<open>MM_SIZE / 2\<close> is C++ integer division.
\<close>

definition MM_SIZE :: "int \<Rightarrow> int" where
  "MM_SIZE mapsize = mapsize * 2"

definition cpp_div :: "int \<Rightarrow> int \<Rightarrow> int" where
  "cpp_div a b = sgn a * sgn b * (\<bar>a\<bar> div \<bar>b\<bar>)"

definition load :: "int \<Rightarrow> tripoint \<Rightarrow> world \<Rightarrow> world" where
  "load mapsize pos w =
     (let dirname = find_mm_dir w in
      if \<not> dir_exist dirname w then
        (let legacy_file = find_legacy_mm_file w in
         case files w legacy_file of
           None \<Rightarrow> w
         | Some f \<Rightarrow>
             (case parse_legacy f of
                Inr es \<Rightarrow> load_legacy es w
              | Inl err \<Rightarrow> debugmsg (''Failed to load legacy memory map file: '' @ err) w))
      else
        (let p = mk_coord_pair pos;
             start = tripoint_sub (sm p)
                       (Tripoint (cpp_div (MM_SIZE mapsize) 2) (cpp_div (MM_SIZE mapsize) 2) 0)
         in fold (fetch_only start)
              (List.product [0..<nat (MM_SIZE mapsize)] [0..<nat (MM_SIZE mapsize)]) w))"

text \<open>
  One iteration of the loop of \<^verbatim>\<open>save\<close>: the chunk behind \<open>it.second\<close> is serialized and
  written; the boolean \<^verbatim>\<open>write_to_file\<close> returns is dropped.
\<close>

definition save_entry :: "string \<Rightarrow> tripoint \<times> addr \<Rightarrow> world \<Rightarrow> fault + world" where
  "save_entry dirname it w =
     (case deref (Shared (snd it)) w of
        Inl e \<Rightarrow> Inl e
      | Inr d \<Rightarrow> Inr (snd (write_to_file (find_submap_path dirname (fst it)) (serialize d) w)))"

fun save_loop :: "string \<Rightarrow> (tripoint \<times> addr) list \<Rightarrow> world \<Rightarrow> fault + world" where
  "save_loop dirname [] w = Inr w"
| "save_loop dirname (it # its) w =
     (case save_entry dirname it w of
        Inl e \<Rightarrow> Inl e
      | Inr w1 \<Rightarrow> save_loop dirname its w1)"

text \<open>\<^verbatim>\<open>map_memory::save\<close>; the position argument is unused.\<close>

definition save :: "tripoint \<Rightarrow> world \<Rightarrow> fault + bool \<times> world" where
  "save pos w =
     (let dirname = find_mm_dir w;
          w1 = snd (assure_dir_exist dirname w) in
      case save_loop dirname (submaps w1) w1 of
        Inl e \<Rightarrow> Inl e
      | Inr w2 \<Rightarrow> Inr (True, w2))"

section \<open>An invariant of the chunk store\<close>

text \<open>
  Every chunk the store tracks was handed out by \<^verbatim>\<open>make_shared_fast\<close> before, and no two
  coordinates share a chunk. \<^verbatim>\<open>fetch_submap\<close> and \<^verbatim>\<open>load_legacy\<close> keep it so.
\<close>

definition store_wf :: "world \<Rightarrow> bool" where
  "store_wf w =
     (distinct (map snd (submaps w)) \<and> (\<forall>it \<in> set (submaps w). snd it < next_addr w))"

section \<open>A world to run the code in\<close>

text \<open>
  A player with nothing remembered, no chunk directory and no legacy file, on a disk that
  accepts every write.
\<close>

definition example_world :: world where
  "example_world =
     \<lparr>submaps = [], cached = [], cache_pos = Tripoint 0 0 0, cache_size = Point 0 0,
      null_mz_submap = new_memorized_submap, heap = Map.empty, next_addr = 0,
      base_save_path = ''save/player'', dirs = {}, files = Map.empty,
      writable = (\<lambda>_. True), debug_log = []\<rparr>"

text \<open>The same player after \<^verbatim>\<open>prepare_region\<close> over the rectangle \<open>(24,36,0)\<close> to \<open>(59,41,0)\<close>.\<close>

definition windowed_world :: world where
  "windowed_world =
     (case prepare_region (Tripoint 24 36 0) (Tripoint 59 41 0) example_world of
        Inr w \<Rightarrow> w
      | Inl _ \<Rightarrow> example_world)"

text \<open>One tracked chunk, and a disk that refuses every write.\<close>

definition full_disk_world :: world where
  "full_disk_world =
     (snd (fetch_submap (Tripoint 0 0 0) example_world))\<lparr>writable := (\<lambda>_. False)\<rparr>"

text \<open>A chunk that remembers one tile and one symbol.\<close>

definition remembered_chunk :: memorized_submap where
  "remembered_chunk =
     set_symbol (Point 5 5) 46
       (set_tile (Point 5 5) \<lparr>tile = ''t_floor'', subtile = 2, rotation = 1\<rparr>
          new_memorized_submap)"

text \<open>Saves with a chunk directory: empty, holding a corrupt file, holding a good file.\<close>

definition chunk_dir_world :: world where
  "chunk_dir_world = example_world\<lparr>dirs := {''save/player.mm1''}\<rparr>"

definition corrupt_chunk_world :: world where
  "corrupt_chunk_world =
     chunk_dir_world\<lparr>files :=
       [''save/player.mm1/1.-2.0.mm'' \<mapsto> Malformed_File ''unexpected end of input'']\<rparr>"

definition saved_chunk_world :: world where
  "saved_chunk_world =
     chunk_dir_world\<lparr>files := [''save/player.mm1/1.-2.0.mm'' \<mapsto> Submap_File remembered_chunk]\<rparr>"

text \<open>An old save: no chunk directory, a legacy file with one chunk.\<close>

definition legacy_world :: world where
  "legacy_world =
     example_world\<lparr>files :=
       [''save/player.mm'' \<mapsto> Legacy_File [(Tripoint 0 0 0, remembered_chunk)]]\<rparr>"

text \<open>The old save again, with the window prepared around the origin before the save is loaded.\<close>

definition prepared_legacy_world :: world where
  "prepared_legacy_world =
     (case prepare_region (Tripoint 0 0 0) (Tripoint 11 11 0) legacy_world of
        Inr w \<Rightarrow> w
      | Inl _ \<Rightarrow> legacy_world)"

declare decimal.simps [simp del]

section \<open>The coordinate mapper\<close>

text \<open>
  C4. For every world position \<open>p\<close>, negative coordinates included, the chunk coordinate
  and the local offset the mapper returns rebuild \<open>p\<close>: \<open>chunk * S + local = p\<close> on both
  axes, the local offset lies in \<open>[0, S)\<close> on both axes, and the chunk keeps the z level
  of \<open>p\<close>. At zero there is no off-by-one: position 0 is cell 0 of chunk 0, and position
  \<open>-1\<close> is the last cell of chunk \<open>-1\<close>.
\<close>

theorem coord_pair_reconstructs_position:
  "tx (sm (mk_coord_pair p)) * SEEX + px (loc (mk_coord_pair p)) = tx p \<and>
   ty (sm (mk_coord_pair p)) * SEEY + py (loc (mk_coord_pair p)) = ty p \<and>
   0 \<le> px (loc (mk_coord_pair p)) \<and> px (loc (mk_coord_pair p)) < SEEX \<and>
   0 \<le> py (loc (mk_coord_pair p)) \<and> py (loc (mk_coord_pair p)) < SEEY \<and>
   tz (sm (mk_coord_pair p)) = tz p \<and>
   mk_coord_pair (Tripoint 0 0 (tz p)) = Coord_Pair (Tripoint 0 0 (tz p)) (Point 0 0) \<and>
   mk_coord_pair (Tripoint (- 1) (- 1) (tz p)) =
     Coord_Pair (Tripoint (- 1) (- 1) (tz p)) (Point (SEEX - 1) (SEEY - 1))"
  by (simp add: mk_coord_pair_def ms_to_sm_remain_def xy_def SEEX_def SEEY_def)

section \<open>Running the window on the example world\<close>

lemmas run_defs =
  prepare_region_def mk_coord_pair_def ms_to_sm_remain_def xy_def SEEX_def SEEY_def
  tripoint_sub_point_def tripoint_sub_def point_add_def tripoint_add_point_def tripoint_add_def
  push_fetched_def fetch_submap_def load_submap_def find_mm_dir_def dir_exist_def
  allocate_submap_def example_world_def get_submap_def Let_def

lemma product_2_4:
  "List.product [0..<2] [0..<4::nat] =
     [(0::nat, 0), (0, 1), (0, 2), (0, 3), (1, 0), (1, 1), (1, 2), (1, 3)]"
  by code_simp

text \<open>
  C1. The claim asks that every chunk whose index relative to the window origin lies in
  \<open>[0, size)\<close> on both axes, index 0 included, resolves to its cell of the dense array.
  The code tests \<open>idx.x > 0 && idx.y > 0\<close>. Run on the example world:
  \<^verbatim>\<open>prepare_region\<close> over a rectangle from chunk \<open>(2,3,0)\<close> to chunk \<open>(4,3,0)\<close> builds the
  window with origin \<open>(1,2,0)\<close> and size \<open>(4,2)\<close> and fetches all eight cells, the one of
  the origin into cell 0; the lookup of the origin \<open>(1,2,0)\<close>, whose index is \<open>(0,0)\<close>,
  returns the sentinel all the same, while the lookup of \<open>(2,3,0)\<close>, index \<open>(1,1)\<close>,
  returns cell \<open>1 * 4 + 1\<close>.
\<close>

theorem get_submap_index_zero_is_sentinel:
  "\<exists>w1. prepare_region (Tripoint 24 36 0) (Tripoint 59 41 0) example_world = Inr w1 \<and>
     cache_pos w1 = Tripoint 1 2 0 \<and> cache_size w1 = Point 4 2 \<and>
     cached w1 = [0, 1, 2, 3, 4, 5, 6, 7] \<and>
     map_of (submaps w1) (Tripoint 1 2 0) = Some (cached w1 ! 0) \<and>
     get_submap (Tripoint 1 2 0) w1 = Inr Null_Mz_Submap \<and>
     get_submap (Tripoint 2 3 0) w1 = Inr (Shared (cached w1 ! 5))"
  by (simp add: run_defs product_2_4)

section \<open>Properties of the cache and the persistence layer\<close>

lemma mk_coord_pair_in_array: "in_array (loc (mk_coord_pair p))"
  by (simp add: in_array_def mk_coord_pair_def ms_to_sm_remain_def SEEX_def SEEY_def Let_def)

lemma get_submap_outside:
  "\<not> (0 \<le> tx c - tx (cache_pos w) \<and> tx c - tx (cache_pos w) < px (cache_size w) \<and>
      0 \<le> ty c - ty (cache_pos w) \<and> ty c - ty (cache_pos w) < py (cache_size w))
   \<Longrightarrow> get_submap c w = Inr Null_Mz_Submap"
  by (auto simp: get_submap_def xy_def tripoint_sub_def Let_def)

lemma get_submap_null_update [simp]:
  "get_submap c (w\<lparr>null_mz_submap := n\<rparr>) = get_submap c w"
  by (simp add: get_submap_def Let_def)

lemma save_entry_null_update:
  "save_entry d it (w\<lparr>null_mz_submap := n\<rparr>) =
     map_sum id (\<lambda>s. s\<lparr>null_mz_submap := n\<rparr>) (save_entry d it w)"
  by (simp add: save_entry_def deref_def write_to_file_def split: option.splits)

lemma save_loop_null_update:
  "save_loop d its (w\<lparr>null_mz_submap := n\<rparr>) =
     map_sum id (\<lambda>s. s\<lparr>null_mz_submap := n\<rparr>) (save_loop d its w)"
proof (induction its arbitrary: w)
  case Nil
  show ?case by simp
next
  case (Cons it its)
  show ?case
  proof (cases "save_entry d it w")
    case (Inl e)
    then show ?thesis by (simp add: save_entry_null_update)
  next
    case (Inr w1)
    then show ?thesis by (simp add: save_entry_null_update Cons.IH)
  qed
qed

lemma save_null_update:
  "save q (w\<lparr>null_mz_submap := n\<rparr>) =
     map_sum id (\<lambda>r. (fst r, (snd r)\<lparr>null_mz_submap := n\<rparr>)) (save q w)"
proof -
  have a: "snd (assure_dir_exist d (w\<lparr>null_mz_submap := n\<rparr>)) =
        (snd (assure_dir_exist d w))\<lparr>null_mz_submap := n\<rparr>" for d
    by (simp add: assure_dir_exist_def dir_exist_def)
  have s: "submaps (snd (assure_dir_exist d w)) = submaps w" for d
    by (simp add: assure_dir_exist_def)
  show ?thesis
    by (cases "save_loop (find_mm_dir w) (submaps w) (snd (assure_dir_exist (find_mm_dir w) w))")
       (simp_all add: save_def Let_def a s find_mm_dir_def save_loop_null_update)
qed

lemma save_written_null_update:
  "map_sum id (\<lambda>r. (fst r, files (snd r), dirs (snd r))) (save q (w\<lparr>null_mz_submap := n\<rparr>)) =
   map_sum id (\<lambda>r. (fst r, files (snd r), dirs (snd r))) (save q w)"
  by (cases "save q w") (simp_all add: save_null_update)

text \<open>
  C2, as amended. For a position whose chunk has an index relative to the window origin,
  taken on the x and y axes, that is not in \<open>[0, size)\<close> on both axes, the lookup returns
  the sentinel without indexing the dense array, \<^verbatim>\<open>get_tile\<close> returns the sentinel's cell
  and \<^verbatim>\<open>memorize_tile\<close> returns normally. The write leaves the heap of shared chunks, hence
  every chunk of the dense array, the dense array itself, the chunk store, the window and
  the disk as they were, and what a later \<^verbatim>\<open>save\<close> writes is the same with and without it.
\<close>

theorem out_of_window_access_is_inert:
  assumes "c = sm (mk_coord_pair pos)"
    and "\<not> (0 \<le> tx c - tx (cache_pos w) \<and> tx c - tx (cache_pos w) < px (cache_size w) \<and>
      0 \<le> ty c - ty (cache_pos w) \<and> ty c - ty (cache_pos w) < py (cache_size w))"
  shows "get_submap c w = Inr Null_Mz_Submap \<and>
    get_tile pos w =
      Inr (tiles (null_mz_submap w) (px (loc (mk_coord_pair pos))) (py (loc (mk_coord_pair pos)))) \<and>
    (\<exists>w'. memorize_tile pos ter st rot w = Inr w' \<and>
       heap w' = heap w \<and> cached w' = cached w \<and> submaps w' = submaps w \<and>
       cache_pos w' = cache_pos w \<and> cache_size w' = cache_size w \<and>
       files w' = files w \<and> dirs w' = dirs w \<and>
       (\<forall>a \<in> set (cached w). heap w' a = heap w a) \<and>
       (\<forall>q. map_sum id (\<lambda>r. (fst r, files (snd r), dirs (snd r))) (save q w') =
            map_sum id (\<lambda>r. (fst r, files (snd r), dirs (snd r))) (save q w)))"
proof -
  have g: "get_submap (sm (mk_coord_pair pos)) w = Inr Null_Mz_Submap"
    using assms get_submap_outside by blast
  show ?thesis
    using g assms(1)
    by (simp add: get_tile_def memorize_tile_def deref_def assign_def Let_def
        mk_coord_pair_in_array save_written_null_update)
qed

text \<open>
  C10, as amended. After \<^verbatim>\<open>memorize_tile\<close> (or \<^verbatim>\<open>memorize_symbol\<close>) at a position \<open>p\<close> whose
  chunk has an x/y index relative to the window origin that is not in \<open>[0, size)\<close> on both
  axes, \<^verbatim>\<open>get_tile\<close> (or \<^verbatim>\<open>get_symbol\<close>) at any position \<open>q\<close> whose chunk has such an index
  too and whose local offset is that of \<open>p\<close> returns the entry just written, on whatever z
  level and however far away \<open>q\<close> is; and what a later \<^verbatim>\<open>save\<close> writes is the same with and
  without the write.
\<close>

theorem out_of_window_writes_alias:
  assumes "cp = sm (mk_coord_pair p)" and "cq = sm (mk_coord_pair q)"
    and "\<not> (0 \<le> tx cp - tx (cache_pos w) \<and> tx cp - tx (cache_pos w) < px (cache_size w) \<and>
      0 \<le> ty cp - ty (cache_pos w) \<and> ty cp - ty (cache_pos w) < py (cache_size w))"
    and "\<not> (0 \<le> tx cq - tx (cache_pos w) \<and> tx cq - tx (cache_pos w) < px (cache_size w) \<and>
      0 \<le> ty cq - ty (cache_pos w) \<and> ty cq - ty (cache_pos w) < py (cache_size w))"
    and "loc (mk_coord_pair q) = loc (mk_coord_pair p)"
  shows "(\<exists>w'. memorize_tile p ter st rot w = Inr w' \<and>
            get_tile q w' = Inr \<lparr>tile = ter, subtile = st, rotation = rot\<rparr> \<and>
            (\<forall>s. map_sum id (\<lambda>r. (fst r, files (snd r), dirs (snd r))) (save s w') =
                 map_sum id (\<lambda>r. (fst r, files (snd r), dirs (snd r))) (save s w))) \<and>
         (\<exists>w'. memorize_symbol p sy w = Inr w' \<and> get_symbol q w' = Inr sy \<and>
            (\<forall>s. map_sum id (\<lambda>r. (fst r, files (snd r), dirs (snd r))) (save s w') =
                 map_sum id (\<lambda>r. (fst r, files (snd r), dirs (snd r))) (save s w)))"
proof -
  have gp: "get_submap (sm (mk_coord_pair p)) w = Inr Null_Mz_Submap"
    using assms get_submap_outside by blast
  have gq: "get_submap (sm (mk_coord_pair q)) w = Inr Null_Mz_Submap"
    using assms get_submap_outside by blast
  have ip: "in_array (loc (mk_coord_pair p))" by (rule mk_coord_pair_in_array)
  show ?thesis
    using gp gq ip assms(5)
    by (simp add: get_tile_def memorize_tile_def get_symbol_def memorize_symbol_def deref_def
        assign_def Let_def set_tile_def set_symbol_def save_written_null_update)
qed

lemma load_submap_frame:
  "submaps (snd (load_submap c w)) = submaps w"
  "cached (snd (load_submap c w)) = cached w"
  "cache_pos (snd (load_submap c w)) = cache_pos w"
  "cache_size (snd (load_submap c w)) = cache_size w"
  "null_mz_submap (snd (load_submap c w)) = null_mz_submap w"
  "base_save_path (snd (load_submap c w)) = base_save_path w"
  "dirs (snd (load_submap c w)) = dirs w"
  "files (snd (load_submap c w)) = files w"
  "writable (snd (load_submap c w)) = writable w"
  by (simp_all add: load_submap_def Let_def allocate_submap_def assign_def release_def
      debugmsg_def split: option.splits sum.splits)

lemma allocate_submap_frame:
  "submaps (snd (allocate_submap w)) = submaps w"
  "cached (snd (allocate_submap w)) = cached w"
  "cache_pos (snd (allocate_submap w)) = cache_pos w"
  "cache_size (snd (allocate_submap w)) = cache_size w"
  "null_mz_submap (snd (allocate_submap w)) = null_mz_submap w"
  "base_save_path (snd (allocate_submap w)) = base_save_path w"
  "dirs (snd (allocate_submap w)) = dirs w"
  "files (snd (allocate_submap w)) = files w"
  "writable (snd (allocate_submap w)) = writable w"
  by (simp_all add: allocate_submap_def)

lemma fetch_submap_hit:
  "map_of (submaps w) c = Some a \<Longrightarrow> fetch_submap c w = (a, w)"
  by (simp add: fetch_submap_def)

lemma fetch_submap_miss:
  assumes "map_of (submaps w) c = None"
  shows "submaps (snd (fetch_submap c w)) = submaps w @ [(c, fst (fetch_submap c w))]"
  using assms
  by (simp add: fetch_submap_def Let_def case_prod_beta load_submap_frame allocate_submap_frame
      split: option.splits)

lemma fetch_submap_frame:
  "cached (snd (fetch_submap c w)) = cached w"
  "cache_pos (snd (fetch_submap c w)) = cache_pos w"
  "cache_size (snd (fetch_submap c w)) = cache_size w"
  "null_mz_submap (snd (fetch_submap c w)) = null_mz_submap w"
  "base_save_path (snd (fetch_submap c w)) = base_save_path w"
  "dirs (snd (fetch_submap c w)) = dirs w"
  "files (snd (fetch_submap c w)) = files w"
  "writable (snd (fetch_submap c w)) = writable w"
  by (simp_all add: fetch_submap_def Let_def case_prod_beta load_submap_frame
      allocate_submap_frame split: option.splits)

lemma fetch_submap_registers:
  "map_of (submaps (snd (fetch_submap c w))) c = Some (fst (fetch_submap c w))"
proof (cases "map_of (submaps w) c")
  case None
  then show ?thesis by (simp add: fetch_submap_miss map_add_def)
next
  case (Some a)
  then show ?thesis by (simp add: fetch_submap_hit)
qed

lemma fetch_submap_keeps:
  assumes "map_of (submaps w) k = Some b"
  shows "map_of (submaps (snd (fetch_submap c w))) k = Some b"
proof (cases "map_of (submaps w) c")
  case None
  with assms show ?thesis by (simp add: fetch_submap_miss map_add_def)
next
  case (Some a)
  with assms show ?thesis by (simp add: fetch_submap_hit)
qed

lemma fetch_submap_again:
  "fetch_submap c (snd (fetch_submap c w)) = fetch_submap c w"
  by (metis fetch_submap_hit fetch_submap_registers prod.collapse)

lemma fold_fetch_keeps:
  "map_of (submaps w) k = Some b \<Longrightarrow>
   map_of (submaps (fold (\<lambda>c s. snd (fetch_submap c s)) cs w)) k = Some b"
  by (induction cs arbitrary: w) (simp_all add: fetch_submap_keeps)

text \<open>
  C7. \<^verbatim>\<open>fetch_submap\<close> is idempotent per coordinate. The chunk it returns is registered
  under the coordinate; fetching the coordinate again, at once or after any number of
  other fetches, returns the same chunk and changes nothing. On a miss the store gains
  exactly the entry of the coordinate, whose chunk is the one \<^verbatim>\<open>load_submap\<close> returned or,
  when that returned none, a newly allocated empty chunk; on a hit nothing changes.
\<close>

theorem fetch_submap_idempotent:
  assumes "fetch_submap c w = (a, w')"
  shows "map_of (submaps w') c = Some a \<and>
         fetch_submap c w' = (a, w') \<and>
         (\<forall>cs. fetch_submap c (fold (\<lambda>k s. snd (fetch_submap k s)) cs w') =
                 (a, fold (\<lambda>k s. snd (fetch_submap k s)) cs w')) \<and>
         (map_of (submaps w) c = None \<longrightarrow>
            submaps w' = submaps w @ [(c, a)] \<and>
            (case load_submap c w of
               (Some l, w1) \<Rightarrow> a = l \<and> heap w' = heap w1
             | (None, w1) \<Rightarrow> a = next_addr w1 \<and> heap w' = (heap w1)(a \<mapsto> new_memorized_submap))) \<and>
         (map_of (submaps w) c \<noteq> None \<longrightarrow> w' = w)"
proof -
  have r: "map_of (submaps w') c = Some a"
    using fetch_submap_registers [of c w] assms by simp
  have k: "map_of (submaps (fold (\<lambda>k s. snd (fetch_submap k s)) cs w')) c = Some a" for cs
    using r by (rule fold_fetch_keeps)
  have m: "submaps w' = submaps w @ [(c, a)]" if "map_of (submaps w) c = None"
    using fetch_submap_miss [OF that] assms by simp
  have l: "(case load_submap c w of
               (Some l, w1) \<Rightarrow> a = l \<and> heap w' = heap w1
             | (None, w1) \<Rightarrow> a = next_addr w1 \<and> heap w' = (heap w1)(a \<mapsto> new_memorized_submap))"
    if "map_of (submaps w) c = None"
    using that assms
    by (auto simp: fetch_submap_def Let_def allocate_submap_def split: prod.splits option.splits)
  have h: "w' = w" if "map_of (submaps w) c \<noteq> None"
    using that assms by (auto simp: fetch_submap_def)
  show ?thesis
    using r k m l h by (simp add: fetch_submap_hit)
qed


lemma push_fetched_frame:
  "cache_pos (push_fetched d w) = cache_pos w"
  "cache_size (push_fetched d w) = cache_size w"
  "null_mz_submap (push_fetched d w) = null_mz_submap w"
  "base_save_path (push_fetched d w) = base_save_path w"
  "dirs (push_fetched d w) = dirs w"
  "files (push_fetched d w) = files w"
  by (simp_all add: push_fetched_def case_prod_beta fetch_submap_frame)

lemma push_fetched_cached:
  "cached (push_fetched d w) =
     cached w @ [fst (fetch_submap
        (tripoint_add_point (cache_pos w) (Point (int (snd d)) (int (fst d)))) w)]"
  by (simp add: push_fetched_def case_prod_beta fetch_submap_frame)

lemma push_fetched_submaps:
  "submaps (push_fetched d w) =
     submaps (snd (fetch_submap
        (tripoint_add_point (cache_pos w) (Point (int (snd d)) (int (fst d)))) w))"
  by (simp add: push_fetched_def case_prod_beta)

lemma fold_push_fetched_frame:
  "cache_pos (fold push_fetched ds w) = cache_pos w"
  "cache_size (fold push_fetched ds w) = cache_size w"
  "null_mz_submap (fold push_fetched ds w) = null_mz_submap w"
  by (induction ds arbitrary: w; simp add: push_fetched_frame)+

lemma fold_push_fetched_keeps:
  "map_of (submaps w) k = Some b \<Longrightarrow> map_of (submaps (fold push_fetched ds w)) k = Some b"
  by (induction ds arbitrary: w) (simp_all add: push_fetched_submaps fetch_submap_keeps)

lemma fold_push_fetched_length:
  "length (cached (fold push_fetched ds w)) = length (cached w) + length ds"
  by (induction ds arbitrary: w) (simp_all add: push_fetched_cached)

lemma fold_push_fetched_prefix:
  "j < length (cached w) \<Longrightarrow> cached (fold push_fetched ds w) ! j = cached w ! j"
  by (induction ds arbitrary: w) (simp_all add: push_fetched_cached nth_append)

lemma fold_push_fetched_cells:
  assumes "i < length ds"
  shows "map_of (submaps (fold push_fetched ds w))
           (tripoint_add_point (cache_pos w) (Point (int (snd (ds ! i))) (int (fst (ds ! i))))) =
         Some (cached (fold push_fetched ds w) ! (length (cached w) + i))"
  using assms
proof (induction ds arbitrary: w i)
  case Nil
  then show ?case by simp
next
  case (Cons d ds)
  let ?c = "tripoint_add_point (cache_pos w) (Point (int (snd d)) (int (fst d)))"
  let ?w1 = "push_fetched d w"
  show ?case
  proof (cases i)
    case 0
    have "map_of (submaps ?w1) ?c = Some (fst (fetch_submap ?c w))"
      by (simp add: push_fetched_submaps fetch_submap_registers)
    then have "map_of (submaps (fold push_fetched ds ?w1)) ?c = Some (fst (fetch_submap ?c w))"
      by (rule fold_push_fetched_keeps)
    moreover have "cached (fold push_fetched ds ?w1) ! length (cached w) =
        fst (fetch_submap ?c w)"
      by (simp add: fold_push_fetched_prefix push_fetched_cached)
    ultimately show ?thesis using 0 by simp
  next
    case (Suc j)
    then have "j < length ds" using Cons.prems by simp
    from Cons.IH [OF this, of ?w1] show ?thesis
      using Suc by (simp add: push_fetched_frame push_fetched_cached)
  qed
qed

lemma row_major_index:
  assumes "0 \<le> dx" "dx < sx" "0 \<le> dy" "dy < sy"
  shows "nat (dy * sx + dx) < nat sy * nat sx"
    and "List.product [0..<nat sy] [0..<nat sx] ! nat (dy * sx + dx) = (nat dy, nat dx)"
proof -
  have e: "nat (dy * sx + dx) = nat dy * nat sx + nat dx"
    using assms by (simp add: nat_add_distrib nat_mult_distrib)
  have "nat dy * nat sx + nat dx < nat dy * nat sx + nat sx" using assms by simp
  also have "\<dots> = Suc (nat dy) * nat sx" by simp
  also have "\<dots> \<le> nat sy * nat sx"
    using assms by (intro mult_le_mono1) simp
  finally show l: "nat (dy * sx + dx) < nat sy * nat sx" using e by simp
  have dxl: "nat dx < nat sx" using assms by simp
  have dyl: "nat dy < nat sy" using assms by simp
  have "List.product [0..<nat sy] [0..<nat sx] ! (nat dy * nat sx + nat dx) =
      ([0..<nat sy] ! ((nat dy * nat sx + nat dx) div nat sx),
       [0..<nat sx] ! ((nat dy * nat sx + nat dx) mod nat sx))"
    using l e by (subst product_nth) simp_all
  also have "\<dots> = (nat dy, nat dx)"
    using dxl dyl by simp
  finally show "List.product [0..<nat sy] [0..<nat sx] ! nat (dy * sx + dx) = (nat dy, nat dx)"
    using e by simp
qed


lemma prepare_region_rebuild:
  assumes "tz p1 = tz p2" and "tx p1 \<le> tx p2" and "ty p1 \<le> ty p2"
    and "origin = tripoint_sub_point (sm (mk_coord_pair p1)) (Point 1 1)"
    and "extent = point_add (xy (tripoint_sub (sm (mk_coord_pair p2)) origin)) (Point 1 1)"
    and "cache_pos w \<noteq> origin \<or> cache_size w \<noteq> extent"
  shows "prepare_region p1 p2 w =
     Inr (fold push_fetched (List.product [0..<nat (py extent)] [0..<nat (px extent)])
            (w\<lparr>cache_pos := origin, cache_size := extent, cached := []\<rparr>))"
  using assms by (auto simp: prepare_region_def Let_def)

lemma prepare_region_same:
  assumes "tz p1 = tz p2" and "tx p1 \<le> tx p2" and "ty p1 \<le> ty p2"
    and "cache_pos w = tripoint_sub_point (sm (mk_coord_pair p1)) (Point 1 1)"
    and "cache_size w =
       point_add (xy (tripoint_sub (sm (mk_coord_pair p2)) (cache_pos w))) (Point 1 1)"
  shows "prepare_region p1 p2 w = Inr w"
  using assms by (simp add: prepare_region_def Let_def)

lemma prepare_region_window:
  assumes "prepare_region p1 p2 w = Inr w'"
  shows "tz p1 = tz p2 \<and> tx p1 \<le> tx p2 \<and> ty p1 \<le> ty p2 \<and>
     cache_pos w' = tripoint_sub_point (sm (mk_coord_pair p1)) (Point 1 1) \<and>
     cache_size w' =
       point_add (xy (tripoint_sub (sm (mk_coord_pair p2)) (cache_pos w'))) (Point 1 1)"
  using assms
  by (auto simp: prepare_region_def Let_def fold_push_fetched_frame split: if_splits)

text \<open>
  C6. After a call of \<^verbatim>\<open>prepare_region\<close> that returned, a second call with the same
  rectangle returns the state as it is: window, dense array, chunk store, heap and disk
  are unchanged. The second call fetches nothing: it returns the state as it is whatever
  the chunk store, the heap and the disk hold, also with an empty store, where any fetch
  would register a chunk.
\<close>

theorem prepare_region_twice_is_noop:
  assumes "prepare_region p1 p2 w = Inr w'"
  shows "prepare_region p1 p2 w' = Inr w' \<and>
    (\<forall>s h n f d.
       prepare_region p1 p2 (w'\<lparr>submaps := s, heap := h, next_addr := n, files := f, dirs := d\<rparr>) =
         Inr (w'\<lparr>submaps := s, heap := h, next_addr := n, files := f, dirs := d\<rparr>))"
  using prepare_region_window [OF assms] by (simp add: prepare_region_same)



lemma save_entry_total:
  assumes "heap w (snd it) \<noteq> None"
  shows "\<exists>w'. save_entry d it w = Inr w' \<and> heap w' = heap w"
  using assms by (auto simp: save_entry_def deref_def write_to_file_def)

lemma save_loop_total:
  assumes "\<forall>it \<in> set its. heap w (snd it) \<noteq> None"
  shows "\<exists>w'. save_loop d its w = Inr w' \<and> heap w' = heap w"
  using assms
proof (induction its arbitrary: w)
  case Nil
  then show ?case by simp
next
  case (Cons it its)
  then obtain w1 where w1: "save_entry d it w = Inr w1" "heap w1 = heap w"
    using save_entry_total [of w it d] by auto
  with Cons.prems have "\<forall>it \<in> set its. heap w1 (snd it) \<noteq> None" by simp
  from Cons.IH [OF this] w1 show ?case by auto
qed

text \<open>
  C3, as amended. \<^verbatim>\<open>save\<close> does not propagate a failure to create the chunk directory or
  to write a chunk's file: whenever it returns, it returns true, and it returns whenever
  every tracked chunk pointer is live.
\<close>

theorem save_always_reports_success:
  "(\<forall>r. save pos w = Inr r \<longrightarrow> fst r = True) \<and>
   ((\<forall>it \<in> set (submaps w). heap w (snd it) \<noteq> None) \<longrightarrow> (\<exists>w'. save pos w = Inr (True, w')))"
proof -
  have a: "save pos w = Inr r \<Longrightarrow> fst r = True" for r
    by (auto simp: save_def Let_def split: sum.splits)
  have b: "\<exists>w'. save pos w = Inr (True, w')" if h: "\<forall>it \<in> set (submaps w). heap w (snd it) \<noteq> None"
  proof -
    let ?w1 = "snd (assure_dir_exist (find_mm_dir w) w)"
    have "submaps ?w1 = submaps w" "heap ?w1 = heap w"
      by (simp_all add: assure_dir_exist_def)
    with h have "\<forall>it \<in> set (submaps ?w1). heap ?w1 (snd it) \<noteq> None" by simp
    from save_loop_total [OF this, of "find_mm_dir w"] show ?thesis
      by (auto simp: save_def Let_def)
  qed
  show ?thesis using a b by blast
qed

lemmas path_defs = find_mm_dir_def find_legacy_mm_file_def find_submap_path_def format_d_def
  digit_char_def decimal.simps

lemma full_disk_world_fields:
  "submaps full_disk_world = [(Tripoint 0 0 0, 0)]"
  "heap full_disk_world = [0 \<mapsto> new_memorized_submap]"
  "dirs full_disk_world = {}"
  "files full_disk_world = Map.empty"
  "writable full_disk_world = (\<lambda>_. False)"
  "base_save_path full_disk_world = ''save/player''"
  by (simp_all add: full_disk_world_def run_defs)

text \<open>
  C3, the claim as stated fails. On a disk that refuses every write, with one tracked
  chunk and no chunk directory, creating the directory fails, writing the chunk's file
  fails, and \<^verbatim>\<open>save\<close> returns true, the disk unchanged.
\<close>

theorem save_failure_not_propagated:
  "fst (assure_dir_exist (find_mm_dir full_disk_world) full_disk_world) = False \<and>
   fst (write_to_file (find_submap_path (find_mm_dir full_disk_world) (Tripoint 0 0 0))
          (serialize new_memorized_submap) full_disk_world) = False \<and>
   save (Tripoint 0 0 0) full_disk_world = Inr (True, full_disk_world)"
  by (simp add: save_def save_entry_def deref_def assure_dir_exist_def write_to_file_def
      dir_exist_def full_disk_world_fields Let_def)

text \<open>C3, witness: the world whose disk refuses every write.\<close>

theorem save_always_reports_success_witness:
  "submaps full_disk_world = [(Tripoint 0 0 0, 0)] \<and>
   files full_disk_world (find_submap_path (find_mm_dir full_disk_world) (Tripoint 0 0 0)) = None \<and>
   (\<exists>w'. save (Tripoint 0 0 0) full_disk_world = Inr (True, w') \<and>
      files w' (find_submap_path (find_mm_dir full_disk_world) (Tripoint 0 0 0)) = None)"
proof -
  have "\<forall>it \<in> set (submaps full_disk_world). heap full_disk_world (snd it) \<noteq> None"
    by (simp add: full_disk_world_fields)
  with save_always_reports_success [of "Tripoint 0 0 0" full_disk_world]
  obtain w' where w': "save (Tripoint 0 0 0) full_disk_world = Inr (True, w')" by blast
  moreover have "save (Tripoint 0 0 0) full_disk_world = Inr (True, full_disk_world)"
    by (simp add: save_def save_entry_def deref_def assure_dir_exist_def write_to_file_def
      dir_exist_def full_disk_world_fields Let_def)
  ultimately show ?thesis by (simp add: full_disk_world_fields)
qed

text \<open>
  C8. \<^verbatim>\<open>load_submap\<close> returns no chunk and leaves the state as it is when the chunk
  directory is absent and when the chunk's file is missing. When parsing the file throws
  it returns no chunk either, having logged one message that carries the three
  coordinates and the parser's message (the chunk it had allocated is released). When
  parsing succeeds it returns the newly allocated chunk, holding what the file parsed to.
\<close>

theorem load_submap_outcomes:
  assumes "path = find_submap_path (find_mm_dir w) c"
  shows
   "(\<not> dir_exist (find_mm_dir w) w \<longrightarrow> load_submap c w = (None, w)) \<and>
    (dir_exist (find_mm_dir w) w \<and> files w path = None \<longrightarrow> load_submap c w = (None, w)) \<and>
    (\<forall>f err. dir_exist (find_mm_dir w) w \<and> files w path = Some f \<and> deserialize f = Inl err \<longrightarrow>
       load_submap c w =
         (None,
          w\<lparr>heap := (heap w)(next_addr w := None), next_addr := Suc (next_addr w),
            debug_log := debug_log w @
              [''Failed to load memory submap ('' @ format_d (tx c) @ '','' @ format_d (ty c) @
               '','' @ format_d (tz c) @ ''): '' @ err]\<rparr>)) \<and>
    (\<forall>f d. dir_exist (find_mm_dir w) w \<and> files w path = Some f \<and> deserialize f = Inr d \<longrightarrow>
       load_submap c w =
         (Some (next_addr w),
          w\<lparr>heap := (heap w)(next_addr w \<mapsto> d), next_addr := Suc (next_addr w)\<rparr>))"
  using assms
  by (simp add: load_submap_def Let_def allocate_submap_def assign_def release_def debugmsg_def
      load_failure_msg_def)


lemma example_paths:
  "find_mm_dir example_world = ''save/player.mm1''"
  "find_mm_dir chunk_dir_world = ''save/player.mm1''"
  "find_mm_dir corrupt_chunk_world = ''save/player.mm1''"
  "find_mm_dir saved_chunk_world = ''save/player.mm1''"
  "find_legacy_mm_file legacy_world = ''save/player.mm''"
  "find_mm_dir legacy_world = ''save/player.mm1''"
  "find_submap_path ''save/player.mm1'' (Tripoint 1 (- 2) 0) = ''save/player.mm1/1.-2.0.mm''"
  by (simp_all add: path_defs example_world_def chunk_dir_world_def corrupt_chunk_world_def
      saved_chunk_world_def legacy_world_def)

text \<open>C8, witness: chunk \<open>(1,-2,0)\<close> with no directory, with an empty directory, with a corrupt file and with a good file.\<close>

theorem load_submap_outcomes_witness:
  "load_submap (Tripoint 1 (- 2) 0) example_world = (None, example_world) \<and>
   load_submap (Tripoint 1 (- 2) 0) chunk_dir_world = (None, chunk_dir_world) \<and>
   fst (load_submap (Tripoint 1 (- 2) 0) corrupt_chunk_world) = None \<and>
   debug_log (snd (load_submap (Tripoint 1 (- 2) 0) corrupt_chunk_world)) =
     [''Failed to load memory submap (1,-2,0): unexpected end of input''] \<and>
   fst (load_submap (Tripoint 1 (- 2) 0) saved_chunk_world) = Some 0 \<and>
   heap (snd (load_submap (Tripoint 1 (- 2) 0) saved_chunk_world)) 0 = Some remembered_chunk"
proof -
  let ?c = "Tripoint 1 (- 2) 0"
  let ?p = "''save/player.mm1/1.-2.0.mm''"
  have a: "load_submap ?c example_world = (None, example_world)"
    using load_submap_outcomes [of ?p example_world ?c]
    by (simp add: example_paths) (simp add: dir_exist_def example_world_def)
  have b: "load_submap ?c chunk_dir_world = (None, chunk_dir_world)"
    using load_submap_outcomes [of ?p chunk_dir_world ?c]
    by (simp add: example_paths) (simp add: dir_exist_def chunk_dir_world_def example_world_def)
  have hc: "dir_exist (find_mm_dir corrupt_chunk_world) corrupt_chunk_world \<and>
      files corrupt_chunk_world ?p = Some (Malformed_File ''unexpected end of input'') \<and>
      deserialize (Malformed_File ''unexpected end of input'') = Inl ''unexpected end of input''"
    by (simp add: example_paths)
       (simp add: dir_exist_def corrupt_chunk_world_def chunk_dir_world_def example_world_def
         deserialize_def)
  have c: "load_submap ?c corrupt_chunk_world =
      (None, corrupt_chunk_world\<lparr>heap := (heap corrupt_chunk_world)(next_addr corrupt_chunk_world := None),
         next_addr := Suc (next_addr corrupt_chunk_world),
         debug_log := debug_log corrupt_chunk_world @
           [''Failed to load memory submap ('' @ format_d 1 @ '','' @ format_d (- 2) @
               '','' @ format_d 0 @ ''): '' @ ''unexpected end of input'']\<rparr>)"
    using load_submap_outcomes [of ?p corrupt_chunk_world ?c] hc
    by (simp add: example_paths)
  have hd: "dir_exist (find_mm_dir saved_chunk_world) saved_chunk_world \<and>
      files saved_chunk_world ?p = Some (Submap_File remembered_chunk) \<and>
      deserialize (Submap_File remembered_chunk) = Inr remembered_chunk"
    by (simp add: example_paths)
       (simp add: dir_exist_def saved_chunk_world_def chunk_dir_world_def example_world_def
         deserialize_def)
  have d: "load_submap ?c saved_chunk_world =
      (Some (next_addr saved_chunk_world),
       saved_chunk_world\<lparr>heap := (heap saved_chunk_world)(next_addr saved_chunk_world \<mapsto> remembered_chunk),
         next_addr := Suc (next_addr saved_chunk_world)\<rparr>)"
    using load_submap_outcomes [of ?p saved_chunk_world ?c] hd
    by (simp add: example_paths)
  have n: "next_addr saved_chunk_world = 0" "debug_log corrupt_chunk_world = []"
    by (simp_all add: saved_chunk_world_def corrupt_chunk_world_def chunk_dir_world_def
        example_world_def)
  show ?thesis
    using a b c d n by (simp add: path_defs)
qed

lemma windowed_world_fields:
  "cache_pos windowed_world = Tripoint 1 2 0"
  "cache_size windowed_world = Point 4 2"
  "cached windowed_world = [0, 1, 2, 3, 4, 5, 6, 7]"
  "null_mz_submap windowed_world = new_memorized_submap"
  by (simp_all add: windowed_world_def run_defs product_2_4)

lemma example_chunks:
  "mk_coord_pair (Tripoint 90 90 0) = Coord_Pair (Tripoint 7 7 0) (Point 6 6)"
  "mk_coord_pair (Tripoint (- 6) (- 6) 3) = Coord_Pair (Tripoint (- 1) (- 1) 3) (Point 6 6)"
  "mk_coord_pair (Tripoint 24 36 0) = Coord_Pair (Tripoint 2 3 0) (Point 0 0)"
  "mk_coord_pair (Tripoint 59 41 0) = Coord_Pair (Tripoint 4 3 0) (Point 11 5)"
  "mk_coord_pair (Tripoint 5 5 0) = Coord_Pair (Tripoint 0 0 0) (Point 5 5)"
  by (simp_all add: mk_coord_pair_def ms_to_sm_remain_def xy_def SEEX_def SEEY_def)

lemma windowed_world_heap:
  "heap windowed_world 5 = Some new_memorized_submap"
  by (simp add: windowed_world_def run_defs product_2_4)

lemma example_chunks_more:
  "mk_coord_pair (Tripoint 24 36 5) = Coord_Pair (Tripoint 2 3 5) (Point 0 0)"
  "mk_coord_pair (Tripoint 84 84 0) = Coord_Pair (Tripoint 7 7 0) (Point 0 0)"
  by (simp_all add: mk_coord_pair_def ms_to_sm_remain_def xy_def SEEX_def SEEY_def)

text \<open>C2, witness: position \<open>(90,90,0)\<close>, chunk \<open>(7,7,0)\<close>, outside the window of the windowed world.\<close>

theorem out_of_window_access_is_inert_witness:
  "get_submap (Tripoint 7 7 0) windowed_world = Inr Null_Mz_Submap \<and>
   get_tile (Tripoint 90 90 0) windowed_world = Inr default_tile \<and>
   (\<exists>w'. memorize_tile (Tripoint 90 90 0) ''t_floor'' 2 1 windowed_world = Inr w' \<and>
      heap w' = heap windowed_world \<and> cached w' = cached windowed_world \<and>
      submaps w' = submaps windowed_world \<and>
      map_sum id (\<lambda>r. (fst r, files (snd r), dirs (snd r))) (save (Tripoint 0 0 0) w') =
      map_sum id (\<lambda>r. (fst r, files (snd r), dirs (snd r))) (save (Tripoint 0 0 0) windowed_world))"
  using out_of_window_access_is_inert [of "Tripoint 7 7 0" "Tripoint 90 90 0" windowed_world "''t_floor''" 2 1]
  by (simp add: example_chunks windowed_world_fields new_memorized_submap_def) blast

text \<open>C10, witness: a write at \<open>(90,90,0)\<close> is read back at \<open>(-6,-6,3)\<close>; both have local offset \<open>(6,6)\<close>.\<close>

theorem out_of_window_writes_alias_witness:
  "(\<exists>w'. memorize_tile (Tripoint 90 90 0) ''t_floor'' 2 1 windowed_world = Inr w' \<and>
      get_tile (Tripoint (- 6) (- 6) 3) w' = Inr \<lparr>tile = ''t_floor'', subtile = 2, rotation = 1\<rparr> \<and>
      map_sum id (\<lambda>r. (fst r, files (snd r), dirs (snd r))) (save (Tripoint 0 0 0) w') =
      map_sum id (\<lambda>r. (fst r, files (snd r), dirs (snd r))) (save (Tripoint 0 0 0) windowed_world)) \<and>
   (\<exists>w'. memorize_symbol (Tripoint 90 90 0) 46 windowed_world = Inr w' \<and>
      get_symbol (Tripoint (- 6) (- 6) 3) w' = Inr 46)"
  using out_of_window_writes_alias [of "Tripoint 7 7 0" "Tripoint 90 90 0" "Tripoint (- 1) (- 1) 3"
      "Tripoint (- 6) (- 6) 3" windowed_world "''t_floor''" 2 1 46]
  by (simp add: example_chunks windowed_world_fields) blast

text \<open>
  C2, the claim as stated fails. The window of the windowed world lies on z level 0, so
  the chunk \<open>(2,3,5)\<close> of position \<open>(24,36,5)\<close> is none of its cells. The lookup drops z:
  it returns cell \<open>1 * 4 + 1\<close>, the chunk of \<open>(2,3,0)\<close>, and \<^verbatim>\<open>memorize_tile\<close> at \<open>(24,36,5)\<close>
  writes into that chunk, leaves the sentinel as it was, and is read back at \<open>(24,36,0)\<close>.
\<close>

theorem write_on_other_level_reaches_window:
  "cache_pos windowed_world = Tripoint 1 2 0 \<and> cache_size windowed_world = Point 4 2 \<and>
   cached windowed_world = [0, 1, 2, 3, 4, 5, 6, 7] \<and>
   sm (mk_coord_pair (Tripoint 24 36 5)) = Tripoint 2 3 5 \<and>
   (\<forall>dx dy. tripoint_add_point (cache_pos windowed_world) (Point dx dy) \<noteq> Tripoint 2 3 5) \<and>
   get_submap (Tripoint 2 3 5) windowed_world = Inr (Shared 5) \<and>
   map_option (\<lambda>d. tiles d 0 0) (heap windowed_world 5) = Some default_tile \<and>
   (\<exists>w'. memorize_tile (Tripoint 24 36 5) ''t_floor'' 2 1 windowed_world = Inr w' \<and>
      map_option (\<lambda>d. tiles d 0 0) (heap w' 5) =
        Some \<lparr>tile = ''t_floor'', subtile = 2, rotation = 1\<rparr> \<and>
      null_mz_submap w' = null_mz_submap windowed_world \<and>
      get_tile (Tripoint 24 36 0) w' = Inr \<lparr>tile = ''t_floor'', subtile = 2, rotation = 1\<rparr>) \<and>
   default_tile \<noteq> \<lparr>tile = ''t_floor'', subtile = 2, rotation = 1\<rparr>"
  by (simp add: windowed_world_fields windowed_world_heap example_chunks example_chunks_more
      tripoint_add_point_def get_submap_def xy_def tripoint_sub_def memorize_tile_def
      get_tile_def deref_def assign_def in_array_def SEEX_def SEEY_def set_tile_def
      new_memorized_submap_def default_tile_def)

text \<open>
  C10, the claim as stated fails. Position \<open>(24,36,5)\<close> lies on another z level than the
  window, position \<open>(84,84,0)\<close> lies beside it, and both have local offset \<open>(0,0)\<close>. The
  write at the first goes to the window's chunk of \<open>(2,3,0)\<close>, not to the sentinel, and the
  read at the second returns the sentinel's default entry.
\<close>

theorem write_on_other_level_not_read_outside:
  "cache_pos windowed_world = Tripoint 1 2 0 \<and> cache_size windowed_world = Point 4 2 \<and>
   sm (mk_coord_pair (Tripoint 24 36 5)) = Tripoint 2 3 5 \<and>
   (\<forall>dx dy. tripoint_add_point (cache_pos windowed_world) (Point dx dy) \<noteq> Tripoint 2 3 5) \<and>
   sm (mk_coord_pair (Tripoint 84 84 0)) = Tripoint 7 7 0 \<and>
   tx (Tripoint 7 7 0) - tx (cache_pos windowed_world) = 6 \<and>
   get_submap (Tripoint 7 7 0) windowed_world = Inr Null_Mz_Submap \<and>
   loc (mk_coord_pair (Tripoint 84 84 0)) = loc (mk_coord_pair (Tripoint 24 36 5)) \<and>
   (\<exists>w'. memorize_tile (Tripoint 24 36 5) ''t_floor'' 2 1 windowed_world = Inr w' \<and>
      null_mz_submap w' = null_mz_submap windowed_world \<and>
      get_tile (Tripoint 84 84 0) w' = Inr default_tile) \<and>
   (\<exists>w'. memorize_symbol (Tripoint 24 36 5) 46 windowed_world = Inr w' \<and>
      get_symbol (Tripoint 84 84 0) w' = Inr default_symbol) \<and>
   default_tile \<noteq> \<lparr>tile = ''t_floor'', subtile = 2, rotation = 1\<rparr> \<and>
   default_symbol \<noteq> 46"
  by (simp add: windowed_world_fields windowed_world_heap example_chunks example_chunks_more
      tripoint_add_point_def get_submap_def xy_def tripoint_sub_def memorize_tile_def
      memorize_symbol_def get_symbol_def
      get_tile_def deref_def assign_def in_array_def SEEX_def SEEY_def set_tile_def set_symbol_def
      new_memorized_submap_def default_tile_def default_symbol_def)


text \<open>C6, witness: the same rectangle twice on the example world.\<close>

theorem prepare_region_twice_is_noop_witness:
  "\<exists>w'. prepare_region (Tripoint 24 36 0) (Tripoint 59 41 0) example_world = Inr w' \<and>
     cache_size w' = Point 4 2 \<and>
     prepare_region (Tripoint 24 36 0) (Tripoint 59 41 0) w' = Inr w'"
proof -
  have "prepare_region (Tripoint 24 36 0) (Tripoint 59 41 0) example_world = Inr windowed_world"
    by (simp add: windowed_world_def prepare_region_def Let_def)
  with prepare_region_twice_is_noop [of "Tripoint 24 36 0" "Tripoint 59 41 0" example_world windowed_world]
  show ?thesis by (simp add: windowed_world_fields)
qed

text \<open>C7, witness: chunk \<open>(3,4,0)\<close> on the example world, fetched again at once and after a fetch of \<open>(5,5,0)\<close>.\<close>

theorem fetch_submap_idempotent_witness:
  "\<exists>a w'. fetch_submap (Tripoint 3 4 0) example_world = (a, w') \<and>
     submaps w' = [(Tripoint 3 4 0, a)] \<and>
     heap w' a = Some new_memorized_submap \<and>
     fetch_submap (Tripoint 3 4 0) w' = (a, w') \<and>
     fetch_submap (Tripoint 3 4 0) (snd (fetch_submap (Tripoint 5 5 0) w')) =
       (a, snd (fetch_submap (Tripoint 5 5 0) w'))"
proof -
  obtain a w' where f: "fetch_submap (Tripoint 3 4 0) example_world = (a, w')"
    by (cases "fetch_submap (Tripoint 3 4 0) example_world")
  have l: "load_submap (Tripoint 3 4 0) example_world = (None, example_world)"
    by (simp add: load_submap_def dir_exist_def find_mm_dir_def example_world_def)
  have m: "map_of (submaps example_world) (Tripoint 3 4 0) = None" "submaps example_world = []"
    by (simp_all add: example_world_def)
  from fetch_submap_idempotent [OF f] have k: "\<forall>cs. fetch_submap (Tripoint 3 4 0) (fold (\<lambda>k s. snd (fetch_submap k s)) cs w') =
                 (a, fold (\<lambda>k s. snd (fetch_submap k s)) cs w')"
    by blast
  have "fetch_submap (Tripoint 3 4 0) (snd (fetch_submap (Tripoint 5 5 0) w')) =
       (a, snd (fetch_submap (Tripoint 5 5 0) w'))"
    using spec [OF k, of "[Tripoint 5 5 0]"] by simp
  moreover from fetch_submap_idempotent [OF f] have
    "fetch_submap (Tripoint 3 4 0) w' = (a, w')"
    "submaps w' = [(Tripoint 3 4 0, a)]"
    "heap w' = (heap example_world)(a \<mapsto> new_memorized_submap)"
    using l m by auto
  ultimately show ?thesis using f by simp
qed

section \<open>Loading a save\<close>

text \<open>The lookup compares the x and y index only; the z level of the chunk plays no part.\<close>

lemma get_submap_ignores_z:
  "get_submap (Tripoint x y z) w = get_submap (Tripoint x y z') w"
  by (simp add: get_submap_def xy_def tripoint_sub_def)

lemma get_submap_inner:
  assumes "0 < tx c - tx (cache_pos w)" and "tx c - tx (cache_pos w) < px (cache_size w)"
    and "0 < ty c - ty (cache_pos w)" and "ty c - ty (cache_pos w) < py (cache_size w)"
    and "length (cached w) = nat (py (cache_size w)) * nat (px (cache_size w))"
  shows "get_submap c w =
     Inr (Shared (cached w ! nat ((ty c - ty (cache_pos w)) * px (cache_size w) +
                                  (tx c - tx (cache_pos w)))))"
proof -
  let ?i = "(ty c - ty (cache_pos w)) * px (cache_size w) + (tx c - tx (cache_pos w))"
  have "nat ?i < nat (py (cache_size w)) * nat (px (cache_size w))"
    using assms by (intro row_major_index(1)) simp_all
  then have l: "nat ?i < length (cached w)" using assms(5) by simp
  have p: "0 \<le> ?i" using assms by simp
  from l p have "?i < int (length (cached w))" by linarith
  with p assms(1-4) show ?thesis
    by (simp add: get_submap_def xy_def tripoint_sub_def Let_def)
qed

lemma allocate_submap_heap:
  "a < next_addr w \<Longrightarrow> heap (snd (allocate_submap w)) a = heap w a"
  "next_addr (snd (allocate_submap w)) = Suc (next_addr w)"
  by (simp_all add: allocate_submap_def)

lemma load_submap_heap:
  "a < next_addr w \<Longrightarrow> heap (snd (load_submap c w)) a = heap w a"
  "next_addr w \<le> next_addr (snd (load_submap c w))"
  by (simp_all add: load_submap_def Let_def allocate_submap_def assign_def release_def
      debugmsg_def split: option.splits sum.splits)

lemma fetch_submap_heap:
  "a < next_addr w \<Longrightarrow> heap (snd (fetch_submap c w)) a = heap w a"
  "next_addr w \<le> next_addr (snd (fetch_submap c w))"
proof -
  let ?w1 = "snd (load_submap c w)"
  have n: "next_addr w \<le> next_addr ?w1" by (rule load_submap_heap)
  show "next_addr w \<le> next_addr (snd (fetch_submap c w))"
    using n
    by (simp add: fetch_submap_def Let_def case_prod_beta allocate_submap_heap
        split: option.splits)
  assume a: "a < next_addr w"
  then have "a < next_addr ?w1" using n by simp
  then have "heap (snd (allocate_submap ?w1)) a = heap ?w1 a"
    by (rule allocate_submap_heap)
  with a show "heap (snd (fetch_submap c w)) a = heap w a"
    by (simp add: fetch_submap_def Let_def case_prod_beta load_submap_heap
        split: option.splits)
qed

lemma push_fetched_heap:
  "a < next_addr w \<Longrightarrow> heap (push_fetched d w) a = heap w a"
  "next_addr w \<le> next_addr (push_fetched d w)"
  by (simp_all add: push_fetched_def case_prod_beta fetch_submap_heap)

lemma fold_push_fetched_heap:
  "a < next_addr w \<Longrightarrow> heap (fold push_fetched ds w) a = heap w a"
proof (induction ds arbitrary: w)
  case Nil
  then show ?case by simp
next
  case (Cons d ds)
  have "a < next_addr (push_fetched d w)"
    using Cons.prems push_fetched_heap(2) [of w d] by simp
  from Cons.IH [OF this] show ?case
    using Cons.prems by (simp add: push_fetched_heap)
qed


lemma chunk_of_position:
  "tx (sm (mk_coord_pair q)) = tx q div SEEX"
  "ty (sm (mk_coord_pair q)) = ty q div SEEY"
  "tz (sm (mk_coord_pair q)) = tz q"
  by (simp_all add: mk_coord_pair_def ms_to_sm_remain_def xy_def Let_def)

lemma get_submap_after_prepare_region:
  assumes run: "prepare_region p1 p2 w = Inr w2"
    and rebuild: "cache_pos w \<noteq> cache_pos w2 \<or> cache_size w \<noteq> cache_size w2"
    and reg: "map_of (submaps w) (sm (mk_coord_pair q)) = Some a"
    and below: "a < next_addr w"
    and inside: "tz q = tz p1" "tx p1 \<le> tx q" "tx q \<le> tx p2" "ty p1 \<le> ty q" "ty q \<le> ty p2"
  shows "get_submap (sm (mk_coord_pair q)) w2 = Inr (Shared a) \<and> heap w2 a = heap w a"
proof -
  let ?c = "sm (mk_coord_pair q)"
  define origin where "origin = tripoint_sub_point (sm (mk_coord_pair p1)) (Point 1 1)"
  define extent where
    "extent = point_add (xy (tripoint_sub (sm (mk_coord_pair p2)) origin)) (Point 1 1)"
  let ?ds = "List.product [0..<nat (py extent)] [0..<nat (px extent)]"
  let ?w0 = "w\<lparr>cache_pos := origin, cache_size := extent, cached := []\<rparr>"
  from prepare_region_window [OF run]
  have valid: "tz p1 = tz p2" "tx p1 \<le> tx p2" "ty p1 \<le> ty p2"
    and pos: "cache_pos w2 = origin" and ext: "cache_size w2 = extent"
    by (simp_all add: origin_def extent_def)
  from rebuild pos ext have "cache_pos w \<noteq> origin \<or> cache_size w \<noteq> extent" by simp
  with prepare_region_rebuild [OF valid origin_def extent_def] run
  have w2: "w2 = fold push_fetched ?ds ?w0" by simp
  define ix where "ix = tx ?c - tx origin"
  define iy where "iy = ty ?c - ty origin"
  have ox: "tx origin = tx p1 div SEEX - 1" and oy: "ty origin = ty p1 div SEEY - 1"
    and oz: "tz origin = tz p1"
    by (simp_all add: origin_def tripoint_sub_point_def chunk_of_position)
  have ex: "px extent = tx p2 div SEEX - tx origin + 1"
    and ey: "py extent = ty p2 div SEEY - ty origin + 1"
    by (simp_all add: extent_def point_add_def xy_def tripoint_sub_def chunk_of_position)
  have mx: "tx p1 div SEEX \<le> tx q div SEEX" "tx q div SEEX \<le> tx p2 div SEEX"
    using inside by (simp_all add: SEEX_def zdiv_mono1)
  have my: "ty p1 div SEEY \<le> ty q div SEEY" "ty q div SEEY \<le> ty p2 div SEEY"
    using inside by (simp_all add: SEEY_def zdiv_mono1)
  have bx: "0 < ix" "ix < px extent"
    using mx by (simp_all add: ix_def ox ex chunk_of_position)
  have by': "0 < iy" "iy < py extent"
    using my by (simp_all add: iy_def oy ey chunk_of_position)
  have c: "tripoint_add_point origin (Point ix iy) = ?c"
    by (rule tripoint.expand)
       (simp add: tripoint_add_point_def ix_def iy_def oz chunk_of_position(3) inside(1))
  have i: "nat (iy * px extent + ix) < length ?ds"
    using row_major_index(1) [of ix "px extent" iy "py extent"] bx by' by simp
  have n: "?ds ! nat (iy * px extent + ix) = (nat iy, nat ix)"
    using row_major_index(2) [of ix "px extent" iy "py extent"] bx by' by simp
  have cell: "map_of (submaps w2) ?c = Some (cached w2 ! nat (iy * px extent + ix))"
    using fold_push_fetched_cells [OF i, of ?w0] bx by' c by (simp add: n w2)
  have "map_of (submaps ?w0) ?c = Some a" using reg by simp
  then have "map_of (submaps w2) ?c = Some a"
    unfolding w2 by (rule fold_push_fetched_keeps)
  with cell have a: "cached w2 ! nat (iy * px extent + ix) = a" by simp
  have len: "length (cached w2) = nat (py (cache_size w2)) * nat (px (cache_size w2))"
    by (simp add: ext) (simp add: w2 fold_push_fetched_length)
  have "get_submap ?c w2 =
     Inr (Shared (cached w2 ! nat ((ty ?c - ty (cache_pos w2)) * px (cache_size w2) +
                                  (tx ?c - tx (cache_pos w2)))))"
    using bx by' len by (intro get_submap_inner) (simp_all add: pos ext ix_def iy_def)
  then have g: "get_submap ?c w2 = Inr (Shared a)"
    using a by (simp add: pos ext ix_def iy_def)
  have "a < next_addr ?w0" using below by simp
  then have "heap w2 a = heap ?w0 a"
    unfolding w2 by (rule fold_push_fetched_heap)
  with g show ?thesis by simp
qed

lemma get_tile_after_prepare_region:
  assumes "prepare_region p1 p2 w = Inr w2"
    and "cache_pos w \<noteq> cache_pos w2 \<or> cache_size w \<noteq> cache_size w2"
    and "map_of (submaps w) (sm (mk_coord_pair q)) = Some a"
    and "a < next_addr w"
    and "heap w a = Some d"
    and "tz q = tz p1" "tx p1 \<le> tx q" "tx q \<le> tx p2" "ty p1 \<le> ty q" "ty q \<le> ty p2"
  shows "get_tile q w2 = Inr (tiles d (px (loc (mk_coord_pair q))) (py (loc (mk_coord_pair q))))"
    and "get_symbol q w2 =
           Inr (symbols d (px (loc (mk_coord_pair q))) (py (loc (mk_coord_pair q))))"
proof -
  from get_submap_after_prepare_region [OF assms(1-4) assms(6-10)] assms(5)
  have g: "get_submap (sm (mk_coord_pair q)) w2 = Inr (Shared a)" "heap w2 a = Some d"
    by simp_all
  show "get_tile q w2 = Inr (tiles d (px (loc (mk_coord_pair q))) (py (loc (mk_coord_pair q))))"
    using g by (simp add: get_tile_def Let_def deref_def mk_coord_pair_in_array)
  show "get_symbol q w2 =
           Inr (symbols d (px (loc (mk_coord_pair q))) (py (loc (mk_coord_pair q))))"
    using g by (simp add: get_symbol_def Let_def deref_def mk_coord_pair_in_array)
qed


lemma load_legacy_entry_frame:
  "cached (load_legacy_entry e w) = cached w"
  "cache_pos (load_legacy_entry e w) = cache_pos w"
  "cache_size (load_legacy_entry e w) = cache_size w"
  "null_mz_submap (load_legacy_entry e w) = null_mz_submap w"
  "files (load_legacy_entry e w) = files w"
  "dirs (load_legacy_entry e w) = dirs w"
  by (simp_all add: load_legacy_entry_def assign_def allocate_submap_def Let_def
      split: option.splits)

lemma load_legacy_frame:
  "cached (load_legacy es w) = cached w"
  "cache_pos (load_legacy es w) = cache_pos w"
  "cache_size (load_legacy es w) = cache_size w"
  "null_mz_submap (load_legacy es w) = null_mz_submap w"
  "files (load_legacy es w) = files w"
  "dirs (load_legacy es w) = dirs w"
  unfolding load_legacy_def
  by (induction es arbitrary: w; simp add: load_legacy_entry_frame)+

lemma store_distinct_addr:
  assumes "distinct (map snd xs)" and "map_of xs c = Some a" and "map_of xs k = Some b"
    and "c \<noteq> k"
  shows "a \<noteq> b"
proof
  assume "a = b"
  from assms(2,3) have "(c, a) \<in> set xs" "(k, b) \<in> set xs"
    by (auto dest: map_of_SomeD)
  moreover from assms(1) have "inj_on snd (set xs)" by (simp add: distinct_map)
  ultimately have "(c, a) = (k, b)"
    using \<open>a = b\<close> inj_onD [of snd "set xs" "(c, a)" "(k, b)"] by simp
  with assms(4) show False by simp
qed

lemma store_wf_below:
  "store_wf w \<Longrightarrow> map_of (submaps w) c = Some a \<Longrightarrow> a < next_addr w"
proof -
  assume wf: "store_wf w" and m: "map_of (submaps w) c = Some a"
  from m have "(c, a) \<in> set (submaps w)" by (rule map_of_SomeD)
  with wf show "a < next_addr w" by (fastforce simp: store_wf_def)
qed

lemma load_legacy_entry_wf:
  assumes "store_wf w"
  shows "store_wf (load_legacy_entry e w)"
proof (cases "map_of (submaps w) (fst e)")
  case None
  have "next_addr w \<notin> snd ` set (submaps w)"
    using assms by (auto simp: store_wf_def)
  then show ?thesis
    using assms None
    by (auto simp: store_wf_def load_legacy_entry_def assign_def allocate_submap_def
        intro: less_SucI)
next
  case (Some a)
  then show ?thesis
    using assms by (simp add: store_wf_def load_legacy_entry_def assign_def)
qed

lemma load_legacy_entry_other:
  assumes "store_wf w" and "map_of (submaps w) c = Some a" and "fst e \<noteq> c"
  shows "map_of (submaps (load_legacy_entry e w)) c = Some a \<and>
         heap (load_legacy_entry e w) a = heap w a"
proof (cases "map_of (submaps w) (fst e)")
  case None
  have "a < next_addr w" using assms(1,2) by (rule store_wf_below)
  then show ?thesis
    using assms None
    by (simp add: load_legacy_entry_def assign_def allocate_submap_def map_add_def)
next
  case (Some b)
  have "b \<noteq> a"
    using assms Some store_distinct_addr [of "submaps w" "fst e" b c a]
    by (simp add: store_wf_def)
  then show ?thesis
    using assms Some by (simp add: load_legacy_entry_def assign_def)
qed

lemma load_legacy_other:
  assumes "store_wf w" and "map_of (submaps w) c = Some a" and "c \<notin> fst ` set es"
  shows "map_of (submaps (load_legacy es w)) c = Some a \<and>
         heap (load_legacy es w) a = heap w a"
  using assms
proof (induction es arbitrary: w)
  case Nil
  then show ?case by (simp add: load_legacy_def)
next
  case (Cons e es)
  let ?w1 = "load_legacy_entry e w"
  have ne: "fst e \<noteq> c" using Cons.prems(3) by auto
  have wf1: "store_wf ?w1" using Cons.prems(1) by (rule load_legacy_entry_wf)
  have o: "map_of (submaps ?w1) c = Some a" "heap ?w1 a = heap w a"
    using load_legacy_entry_other [OF Cons.prems(1,2) ne] by simp_all
  have "c \<notin> fst ` set es" using Cons.prems(3) by auto
  from Cons.IH [OF wf1 o(1) this] o(2) show ?case
    by (simp add: load_legacy_def)
qed

lemma load_legacy_entry_self:
  "\<exists>a. map_of (submaps (load_legacy_entry (c, d) w)) c = Some a \<and>
       heap (load_legacy_entry (c, d) w) a = Some d"
  by (cases "map_of (submaps w) c")
     (simp_all add: load_legacy_entry_def assign_def allocate_submap_def map_add_def)

lemma load_legacy_wf:
  "store_wf w \<Longrightarrow> store_wf (load_legacy es w)"
  unfolding load_legacy_def
  by (induction es arbitrary: w) (simp_all add: load_legacy_entry_wf)

lemma load_legacy_populates:
  assumes "store_wf w" and "distinct (map fst es)" and "(c, d) \<in> set es"
  shows "\<exists>a. map_of (submaps (load_legacy es w)) c = Some a \<and>
             heap (load_legacy es w) a = Some d"
  using assms
proof (induction es arbitrary: w)
  case Nil
  then show ?case by simp
next
  case (Cons e es)
  let ?w1 = "load_legacy_entry e w"
  have wf1: "store_wf ?w1" using Cons.prems(1) by (rule load_legacy_entry_wf)
  show ?case
  proof (cases "e = (c, d)")
    case True
    obtain a where a: "map_of (submaps ?w1) c = Some a" "heap ?w1 a = Some d"
      using load_legacy_entry_self [of c d w] True by auto
    have "c \<notin> fst ` set es" using Cons.prems(2) True by auto
    from load_legacy_other [OF wf1 a(1) this] a(2) show ?thesis
      by (auto simp: load_legacy_def)
  next
    case False
    then have "(c, d) \<in> set es" using Cons.prems(3) by simp
    moreover have "distinct (map fst es)" using Cons.prems(2) by simp
    ultimately show ?thesis
      using Cons.IH [OF wf1] by (simp add: load_legacy_def)
  qed
qed

lemma cpp_div_MM_SIZE: "cpp_div (MM_SIZE m) 2 = m"
  by (simp add: cpp_div_def MM_SIZE_def abs_mult sgn_mult mult_sgn_abs)

lemma fetch_submap_keys:
  "fst ` set (submaps (snd (fetch_submap c w))) = insert c (fst ` set (submaps w))"
proof (cases "map_of (submaps w) c")
  case None
  then show ?thesis by (simp add: fetch_submap_miss)
next
  case (Some a)
  then have "c \<in> fst ` set (submaps w)"
    by (metis map_of_eq_None_iff option.distinct(1))
  with Some show ?thesis by (auto simp: fetch_submap_hit)
qed

lemma fold_fetch_only_frame:
  "cached (fold (fetch_only start) ds w) = cached w"
  "cache_pos (fold (fetch_only start) ds w) = cache_pos w"
  "cache_size (fold (fetch_only start) ds w) = cache_size w"
  "null_mz_submap (fold (fetch_only start) ds w) = null_mz_submap w"
  "files (fold (fetch_only start) ds w) = files w"
  "dirs (fold (fetch_only start) ds w) = dirs w"
  by (induction ds arbitrary: w; simp add: fetch_only_def fetch_submap_frame)+

lemma fold_fetch_only_keeps:
  "map_of (submaps w) k = Some b \<Longrightarrow>
   map_of (submaps (fold (fetch_only start) ds w)) k = Some b"
  by (induction ds arbitrary: w) (simp_all add: fetch_only_def fetch_submap_keeps)

lemma fold_fetch_only_keys:
  "fst ` set (submaps (fold (fetch_only start) ds w)) =
     fst ` set (submaps w) \<union>
     (\<lambda>d. tripoint_add start (Tripoint (int (snd d)) (int (fst d)) 0)) ` set ds"
  by (induction ds arbitrary: w) (auto simp: fetch_only_def fetch_submap_keys)


lemma window_square:
  "(\<lambda>d. tripoint_add (tripoint_sub c (Tripoint m m 0)) (Tripoint (int (snd d)) (int (fst d)) 0)) `
     set (List.product [0..<nat (MM_SIZE m)] [0..<nat (MM_SIZE m)]) =
   {tripoint_add c (Tripoint dx dy 0) | dx dy. - m \<le> dx \<and> dx < m \<and> - m \<le> dy \<and> dy < m}"
  (is "?f ` ?D = ?S")
proof (intro set_eqI iffI)
  fix k
  assume "k \<in> ?f ` ?D"
  then obtain j i where d: "j < nat (MM_SIZE m)" "i < nat (MM_SIZE m)" "k = ?f (j, i)"
    by auto
  have "k = tripoint_add c (Tripoint (int i - m) (int j - m) 0)"
    using d(3) by (simp add: tripoint_add_def tripoint_sub_def)
  moreover have "- m \<le> int i - m \<and> int i - m < m \<and> - m \<le> int j - m \<and> int j - m < m"
    using d(1,2) unfolding MM_SIZE_def by linarith
  ultimately show "k \<in> ?S" by blast
next
  fix k
  assume "k \<in> ?S"
  then obtain dx dy where r: "- m \<le> dx" "dx < m" "- m \<le> dy" "dy < m"
    and k: "k = tripoint_add c (Tripoint dx dy 0)" by blast
  have "(nat (dy + m), nat (dx + m)) \<in> ?D"
    using r by (simp add: MM_SIZE_def)
  moreover have "k = ?f (nat (dy + m), nat (dx + m))"
    using r k by (simp add: tripoint_add_def tripoint_sub_def)
  ultimately show "k \<in> ?f ` ?D" by (rule rev_image_eqI)
qed

lemma load_legacy_path:
  assumes "\<not> dir_exist (find_mm_dir w) w" and "files w (find_legacy_mm_file w) = Some f"
    and "parse_legacy f = Inr es"
  shows "load mapsize pos w = load_legacy es w"
  using assms by (simp add: load_def Let_def)

lemma load_window_path:
  assumes "dir_exist (find_mm_dir w) w"
  shows "load mapsize pos w =
     fold (fetch_only (tripoint_sub (sm (mk_coord_pair pos)) (Tripoint mapsize mapsize 0)))
       (List.product [0..<nat (MM_SIZE mapsize)] [0..<nat (MM_SIZE mapsize)]) w"
  using assms by (simp add: load_def Let_def cpp_div_MM_SIZE)

lemma legacy_then_get_tile:
  assumes wf: "store_wf w" and dist: "distinct (map fst es)" and mem: "(k, d) \<in> set es"
    and run: "prepare_region p1 p2 (load_legacy es w) = Inr w2"
    and rebuild: "cache_pos w \<noteq> cache_pos w2 \<or> cache_size w \<noteq> cache_size w2"
    and q: "sm (mk_coord_pair q) = k"
    and inside: "tz q = tz p1" "tx p1 \<le> tx q" "tx q \<le> tx p2" "ty p1 \<le> ty q" "ty q \<le> ty p2"
  shows "get_tile q w2 = Inr (tiles d (px (loc (mk_coord_pair q))) (py (loc (mk_coord_pair q)))) \<and>
         get_symbol q w2 =
           Inr (symbols d (px (loc (mk_coord_pair q))) (py (loc (mk_coord_pair q))))"
proof -
  let ?w1 = "load_legacy es w"
  obtain a where a: "map_of (submaps ?w1) k = Some a" "heap ?w1 a = Some d"
    using load_legacy_populates [OF wf dist mem] by blast
  have wf1: "store_wf ?w1" using wf by (rule load_legacy_wf)
  have below: "a < next_addr ?w1" using wf1 a(1) by (rule store_wf_below)
  have rb: "cache_pos ?w1 \<noteq> cache_pos w2 \<or> cache_size ?w1 \<noteq> cache_size w2"
    using rebuild by (simp add: load_legacy_frame)
  have reg: "map_of (submaps ?w1) (sm (mk_coord_pair q)) = Some a"
    using a(1) q by simp
  show ?thesis
    using get_tile_after_prepare_region [OF run rb reg below a(2) inside] by simp
qed

lemma sentinel_get_tile:
  assumes "get_submap (sm (mk_coord_pair q)) w = Inr Null_Mz_Submap"
  shows "get_tile q w =
           Inr (tiles (null_mz_submap w) (px (loc (mk_coord_pair q))) (py (loc (mk_coord_pair q)))) \<and>
         get_symbol q w =
           Inr (symbols (null_mz_submap w) (px (loc (mk_coord_pair q))) (py (loc (mk_coord_pair q))))"
  using assms
  by (simp add: get_tile_def get_symbol_def Let_def deref_def mk_coord_pair_in_array)

lemma shared_get_tile:
  assumes "get_submap (sm (mk_coord_pair q)) w = Inr (Shared a)" and "heap w a = Some d"
  shows "get_tile q w =
           Inr (tiles d (px (loc (mk_coord_pair q))) (py (loc (mk_coord_pair q)))) \<and>
         get_symbol q w =
           Inr (symbols d (px (loc (mk_coord_pair q))) (py (loc (mk_coord_pair q))))"
  using assms
  by (simp add: get_tile_def get_symbol_def Let_def deref_def mk_coord_pair_in_array)

lemma load_as_fetches:
  assumes "dir_exist (find_mm_dir w) w"
  shows "load mapsize pos w =
     fold (\<lambda>k s. snd (fetch_submap k s))
       (map (\<lambda>d. tripoint_add (sm (mk_coord_pair pos))
                   (Tripoint (int (snd d) - mapsize) (int (fst d) - mapsize) 0))
          (List.product [0..<nat (MM_SIZE mapsize)] [0..<nat (MM_SIZE mapsize)])) w"
proof -
  have "fetch_only (tripoint_sub (sm (mk_coord_pair pos)) (Tripoint mapsize mapsize 0)) =
      (\<lambda>k s. snd (fetch_submap k s)) \<circ>
      (\<lambda>d. tripoint_add (sm (mk_coord_pair pos))
                   (Tripoint (int (snd d) - mapsize) (int (fst d) - mapsize) 0))"
    by (rule ext) (simp add: fetch_only_def tripoint_add_def tripoint_sub_def fun_eq_iff algebra_simps)
  then show ?thesis
    by (simp add: load_window_path [OF assms] fold_map)
qed

text \<open>
  C9, as amended. When the chunk directory does not exist and the legacy file is present
  and parses, \<^verbatim>\<open>load\<close> does what \<^verbatim>\<open>load_legacy\<close> does and returns, the window and the
  sentinel untouched. On a well-formed store and a legacy file with one entry per chunk,
  every chunk of the file is then tracked under its coordinate with the file's data.
  \<^verbatim>\<open>get_tile\<close> and \<^verbatim>\<open>get_symbol\<close> at a position of such a chunk return the file's data
  where the window holds the chunk: right after \<^verbatim>\<open>load\<close> when the lookup resolves to the
  chunk the store tracks, and after a later \<^verbatim>\<open>prepare_region\<close> that has rebuilt the window
  over a rectangle holding the position; where the lookup resolves to the sentinel they
  return the sentinel's cell. When the directory exists, \<^verbatim>\<open>load\<close> is the sequence of
  \<^verbatim>\<open>fetch_submap\<close> calls on the coordinates \<open>chunk + (dx, dy, 0)\<close> for \<open>dy\<close> (outer) and \<open>dx\<close>
  (inner) from \<open>-MAPSIZE\<close> to \<open>MAPSIZE - 1\<close>; it leaves the window untouched, and the store
  tracks what it tracked before and exactly those coordinates in addition.
\<close>

theorem load_legacy_or_window:
  assumes "c = sm (mk_coord_pair pos)"
  shows
   "(\<not> dir_exist (find_mm_dir w) w \<and> files w (find_legacy_mm_file w) = Some f \<and>
     parse_legacy f = Inr es \<longrightarrow>
       load mapsize pos w = load_legacy es w \<and>
       cached (load mapsize pos w) = cached w \<and>
       cache_pos (load mapsize pos w) = cache_pos w \<and>
       cache_size (load mapsize pos w) = cache_size w \<and>
       null_mz_submap (load mapsize pos w) = null_mz_submap w \<and>
       (store_wf w \<and> distinct (map fst es) \<longrightarrow>
          (\<forall>k d. (k, d) \<in> set es \<longrightarrow>
             (\<exists>a. map_of (submaps (load mapsize pos w)) k = Some a \<and>
                  heap (load mapsize pos w) a = Some d) \<and>
             (\<forall>q a. sm (mk_coord_pair q) = k \<and>
                get_submap k (load mapsize pos w) = Inr (Shared a) \<and>
                map_of (submaps (load mapsize pos w)) k = Some a \<longrightarrow>
                  get_tile q (load mapsize pos w) =
                    Inr (tiles d (px (loc (mk_coord_pair q))) (py (loc (mk_coord_pair q)))) \<and>
                  get_symbol q (load mapsize pos w) =
                    Inr (symbols d (px (loc (mk_coord_pair q))) (py (loc (mk_coord_pair q))))) \<and>
             (\<forall>q. sm (mk_coord_pair q) = k \<and>
                get_submap k (load mapsize pos w) = Inr Null_Mz_Submap \<longrightarrow>
                  get_tile q (load mapsize pos w) =
                    Inr (tiles (null_mz_submap w) (px (loc (mk_coord_pair q)))
                           (py (loc (mk_coord_pair q)))) \<and>
                  get_symbol q (load mapsize pos w) =
                    Inr (symbols (null_mz_submap w) (px (loc (mk_coord_pair q)))
                           (py (loc (mk_coord_pair q))))) \<and>
             (\<forall>p1 p2 q w2.
                prepare_region p1 p2 (load mapsize pos w) = Inr w2 \<and>
                (cache_pos w \<noteq> cache_pos w2 \<or> cache_size w \<noteq> cache_size w2) \<and>
                sm (mk_coord_pair q) = k \<and> tz q = tz p1 \<and>
                tx p1 \<le> tx q \<and> tx q \<le> tx p2 \<and> ty p1 \<le> ty q \<and> ty q \<le> ty p2 \<longrightarrow>
                  get_tile q w2 =
                    Inr (tiles d (px (loc (mk_coord_pair q))) (py (loc (mk_coord_pair q)))) \<and>
                  get_symbol q w2 =
                    Inr (symbols d (px (loc (mk_coord_pair q))) (py (loc (mk_coord_pair q)))))))) \<and>
    (dir_exist (find_mm_dir w) w \<longrightarrow>
       load mapsize pos w =
         fold (\<lambda>k s. snd (fetch_submap k s))
           (map (\<lambda>d. tripoint_add c (Tripoint (int (snd d) - mapsize) (int (fst d) - mapsize) 0))
              (List.product [0..<nat (MM_SIZE mapsize)] [0..<nat (MM_SIZE mapsize)])) w \<and>
       cached (load mapsize pos w) = cached w \<and>
       cache_pos (load mapsize pos w) = cache_pos w \<and>
       cache_size (load mapsize pos w) = cache_size w \<and>
       fst ` set (submaps (load mapsize pos w)) =
         fst ` set (submaps w) \<union>
         {tripoint_add c (Tripoint dx dy 0) | dx dy.
            - mapsize \<le> dx \<and> dx < mapsize \<and> - mapsize \<le> dy \<and> dy < mapsize} \<and>
       (\<forall>k a. map_of (submaps w) k = Some a \<longrightarrow>
              map_of (submaps (load mapsize pos w)) k = Some a))"
proof (intro conjI impI)
  assume h: "\<not> dir_exist (find_mm_dir w) w \<and> files w (find_legacy_mm_file w) = Some f \<and>
     parse_legacy f = Inr es"
  then show l: "load mapsize pos w = load_legacy es w"
    by (simp add: load_legacy_path)
  show "cached (load mapsize pos w) = cached w" "cache_pos (load mapsize pos w) = cache_pos w"
    "cache_size (load mapsize pos w) = cache_size w"
    "null_mz_submap (load mapsize pos w) = null_mz_submap w"
    by (simp_all add: l load_legacy_frame)
  assume wf: "store_wf w \<and> distinct (map fst es)"
  show "\<forall>k d. (k, d) \<in> set es \<longrightarrow>
             (\<exists>a. map_of (submaps (load mapsize pos w)) k = Some a \<and>
                  heap (load mapsize pos w) a = Some d) \<and>
             (\<forall>q a. sm (mk_coord_pair q) = k \<and>
                get_submap k (load mapsize pos w) = Inr (Shared a) \<and>
                map_of (submaps (load mapsize pos w)) k = Some a \<longrightarrow>
                  get_tile q (load mapsize pos w) =
                    Inr (tiles d (px (loc (mk_coord_pair q))) (py (loc (mk_coord_pair q)))) \<and>
                  get_symbol q (load mapsize pos w) =
                    Inr (symbols d (px (loc (mk_coord_pair q))) (py (loc (mk_coord_pair q))))) \<and>
             (\<forall>q. sm (mk_coord_pair q) = k \<and>
                get_submap k (load mapsize pos w) = Inr Null_Mz_Submap \<longrightarrow>
                  get_tile q (load mapsize pos w) =
                    Inr (tiles (null_mz_submap w) (px (loc (mk_coord_pair q)))
                           (py (loc (mk_coord_pair q)))) \<and>
                  get_symbol q (load mapsize pos w) =
                    Inr (symbols (null_mz_submap w) (px (loc (mk_coord_pair q)))
                           (py (loc (mk_coord_pair q))))) \<and>
             (\<forall>p1 p2 q w2.
                prepare_region p1 p2 (load mapsize pos w) = Inr w2 \<and>
                (cache_pos w \<noteq> cache_pos w2 \<or> cache_size w \<noteq> cache_size w2) \<and>
                sm (mk_coord_pair q) = k \<and> tz q = tz p1 \<and>
                tx p1 \<le> tx q \<and> tx q \<le> tx p2 \<and> ty p1 \<le> ty q \<and> ty q \<le> ty p2 \<longrightarrow>
                  get_tile q w2 =
                    Inr (tiles d (px (loc (mk_coord_pair q))) (py (loc (mk_coord_pair q)))) \<and>
                  get_symbol q w2 =
                    Inr (symbols d (px (loc (mk_coord_pair q))) (py (loc (mk_coord_pair q)))))"
  proof (intro allI impI)
    fix k d
    assume mem: "(k, d) \<in> set es"
    let ?L = "load mapsize pos w"
    have pop: "\<exists>a. map_of (submaps ?L) k = Some a \<and> heap ?L a = Some d"
      unfolding l using wf mem by (intro load_legacy_populates) simp_all
    have direct: "get_tile q ?L =
          Inr (tiles d (px (loc (mk_coord_pair q))) (py (loc (mk_coord_pair q)))) \<and>
        get_symbol q ?L =
          Inr (symbols d (px (loc (mk_coord_pair q))) (py (loc (mk_coord_pair q))))"
      if "sm (mk_coord_pair q) = k \<and> get_submap k ?L = Inr (Shared a) \<and>
          map_of (submaps ?L) k = Some a" for q a
    proof -
      from pop that have "heap ?L a = Some d" by auto
      moreover from that have "get_submap (sm (mk_coord_pair q)) ?L = Inr (Shared a)" by simp
      ultimately show ?thesis by (intro shared_get_tile)
    qed
    have sent: "get_tile q ?L =
          Inr (tiles (null_mz_submap w) (px (loc (mk_coord_pair q))) (py (loc (mk_coord_pair q)))) \<and>
        get_symbol q ?L =
          Inr (symbols (null_mz_submap w) (px (loc (mk_coord_pair q)))
                 (py (loc (mk_coord_pair q))))"
      if "sm (mk_coord_pair q) = k \<and> get_submap k ?L = Inr Null_Mz_Submap" for q
    proof -
      from that have "get_submap (sm (mk_coord_pair q)) ?L = Inr Null_Mz_Submap" by simp
      from sentinel_get_tile [OF this] show ?thesis
        by (simp add: l load_legacy_frame)
    qed
    have later: "get_tile q w2 =
          Inr (tiles d (px (loc (mk_coord_pair q))) (py (loc (mk_coord_pair q)))) \<and>
        get_symbol q w2 =
          Inr (symbols d (px (loc (mk_coord_pair q))) (py (loc (mk_coord_pair q))))"
      if "prepare_region p1 p2 ?L = Inr w2 \<and>
                (cache_pos w \<noteq> cache_pos w2 \<or> cache_size w \<noteq> cache_size w2) \<and>
                sm (mk_coord_pair q) = k \<and> tz q = tz p1 \<and>
                tx p1 \<le> tx q \<and> tx q \<le> tx p2 \<and> ty p1 \<le> ty q \<and> ty q \<le> ty p2" for p1 p2 q w2
      using legacy_then_get_tile [of w es k d p1 p2 w2 q] wf mem that unfolding l by simp
    show "(\<exists>a. map_of (submaps ?L) k = Some a \<and> heap ?L a = Some d) \<and>
             (\<forall>q a. sm (mk_coord_pair q) = k \<and>
                get_submap k ?L = Inr (Shared a) \<and>
                map_of (submaps ?L) k = Some a \<longrightarrow>
                  get_tile q ?L =
                    Inr (tiles d (px (loc (mk_coord_pair q))) (py (loc (mk_coord_pair q)))) \<and>
                  get_symbol q ?L =
                    Inr (symbols d (px (loc (mk_coord_pair q))) (py (loc (mk_coord_pair q))))) \<and>
             (\<forall>q. sm (mk_coord_pair q) = k \<and>
                get_submap k ?L = Inr Null_Mz_Submap \<longrightarrow>
                  get_tile q ?L =
                    Inr (tiles (null_mz_submap w) (px (loc (mk_coord_pair q)))
                           (py (loc (mk_coord_pair q)))) \<and>
                  get_symbol q ?L =
                    Inr (symbols (null_mz_submap w) (px (loc (mk_coord_pair q)))
                           (py (loc (mk_coord_pair q))))) \<and>
             (\<forall>p1 p2 q w2.
                prepare_region p1 p2 ?L = Inr w2 \<and>
                (cache_pos w \<noteq> cache_pos w2 \<or> cache_size w \<noteq> cache_size w2) \<and>
                sm (mk_coord_pair q) = k \<and> tz q = tz p1 \<and>
                tx p1 \<le> tx q \<and> tx q \<le> tx p2 \<and> ty p1 \<le> ty q \<and> ty q \<le> ty p2 \<longrightarrow>
                  get_tile q w2 =
                    Inr (tiles d (px (loc (mk_coord_pair q))) (py (loc (mk_coord_pair q)))) \<and>
                  get_symbol q w2 =
                    Inr (symbols d (px (loc (mk_coord_pair q))) (py (loc (mk_coord_pair q)))))"
      using pop direct sent later by (intro conjI allI impI) blast+
  qed
next
  assume d: "dir_exist (find_mm_dir w) w"
  note p = load_window_path [OF d, of mapsize pos]
  show "load mapsize pos w =
         fold (\<lambda>k s. snd (fetch_submap k s))
           (map (\<lambda>d. tripoint_add c (Tripoint (int (snd d) - mapsize) (int (fst d) - mapsize) 0))
              (List.product [0..<nat (MM_SIZE mapsize)] [0..<nat (MM_SIZE mapsize)])) w"
    unfolding assms using d by (rule load_as_fetches)
  show "cached (load mapsize pos w) = cached w" "cache_pos (load mapsize pos w) = cache_pos w"
    "cache_size (load mapsize pos w) = cache_size w"
    by (simp_all add: p fold_fetch_only_frame)
  show "fst ` set (submaps (load mapsize pos w)) =
         fst ` set (submaps w) \<union>
         {tripoint_add c (Tripoint dx dy 0) | dx dy.
            - mapsize \<le> dx \<and> dx < mapsize \<and> - mapsize \<le> dy \<and> dy < mapsize}"
    unfolding p fold_fetch_only_keys assms window_square ..
  show "\<forall>k a. map_of (submaps w) k = Some a \<longrightarrow>
              map_of (submaps (load mapsize pos w)) k = Some a"
    unfolding p by (simp add: fold_fetch_only_keeps)
qed

lemma prepare_region_returns:
  "tz p1 = tz p2 \<Longrightarrow> tx p1 \<le> tx p2 \<Longrightarrow> ty p1 \<le> ty p2 \<Longrightarrow>
   \<exists>w'. prepare_region p1 p2 w = Inr w'"
  by (simp add: prepare_region_def Let_def)

lemma legacy_world_load:
  "load 11 (Tripoint 5 5 0) legacy_world =
     legacy_world\<lparr>submaps := [(Tripoint 0 0 0, 0)], heap := [0 \<mapsto> remembered_chunk],
       next_addr := Suc 0\<rparr>"
  by (simp add: load_def Let_def example_paths)
     (simp add: legacy_world_def example_world_def dir_exist_def parse_legacy_def
       load_legacy_def load_legacy_entry_def allocate_submap_def assign_def)

text \<open>
  C9, the claim as stated fails. On the old save, \<^verbatim>\<open>load\<close> puts the legacy chunk into the
  store, and the \<^verbatim>\<open>get_tile\<close> that follows at a position the file remembers returns the
  default tile: the lookup goes through the window, which \<^verbatim>\<open>load\<close> does not touch.
\<close>

theorem legacy_load_not_seen_by_get_tile:
  "\<not> dir_exist (find_mm_dir legacy_world) legacy_world \<and>
   files legacy_world (find_legacy_mm_file legacy_world) =
     Some (Legacy_File [(Tripoint 0 0 0, remembered_chunk)]) \<and>
   sm (mk_coord_pair (Tripoint 5 5 0)) = Tripoint 0 0 0 \<and>
   loc (mk_coord_pair (Tripoint 5 5 0)) = Point 5 5 \<and>
   tiles remembered_chunk 5 5 = \<lparr>tile = ''t_floor'', subtile = 2, rotation = 1\<rparr> \<and>
   map_of (submaps (load 11 (Tripoint 5 5 0) legacy_world)) (Tripoint 0 0 0) = Some 0 \<and>
   heap (load 11 (Tripoint 5 5 0) legacy_world) 0 = Some remembered_chunk \<and>
   get_tile (Tripoint 5 5 0) (load 11 (Tripoint 5 5 0) legacy_world) = Inr default_tile \<and>
   default_tile \<noteq> \<lparr>tile = ''t_floor'', subtile = 2, rotation = 1\<rparr>"
  by (simp add: legacy_world_load example_chunks example_paths)
     (simp add: legacy_world_def example_world_def dir_exist_def remembered_chunk_def
       set_tile_def set_symbol_def new_memorized_submap_def default_tile_def
       get_tile_def get_submap_def deref_def in_array_def xy_def tripoint_sub_def
       example_chunks SEEX_def SEEY_def)

lemma product_2_2:
  "List.product [0..<2] [0..<2::nat] = [(0::nat, 0), (0, 1), (1, 0), (1, 1)]"
  by code_simp

lemma prepared_legacy_world_fields:
  "cache_pos prepared_legacy_world = Tripoint (- 1) (- 1) 0"
  "cache_size prepared_legacy_world = Point 2 2"
  "cached prepared_legacy_world = [0, 1, 2, 3]"
  "submaps prepared_legacy_world =
     [(Tripoint (- 1) (- 1) 0, 0), (Tripoint 0 (- 1) 0, 1), (Tripoint (- 1) 0 0, 2),
      (Tripoint 0 0 0, 3)]"
  "next_addr prepared_legacy_world = 4"
  "dirs prepared_legacy_world = {}"
  "files prepared_legacy_world = files legacy_world"
  "base_save_path prepared_legacy_world = ''save/player''"
  by (simp_all add: prepared_legacy_world_def legacy_world_def run_defs product_2_2)

text \<open>
  C9, witness: the old save, read at \<open>(5,5,0)\<close> after a later \<^verbatim>\<open>prepare_region\<close>, right
  after \<^verbatim>\<open>load\<close> with the window prepared before, and right after \<^verbatim>\<open>load\<close> with no window;
  and the save with a chunk directory, with \<open>MAPSIZE = 11\<close>, where \<open>(-11,10,0)\<close> is fetched
  and \<open>(11,0,0)\<close> is not.
\<close>

theorem load_legacy_or_window_witness:
  "(\<exists>w2. prepare_region (Tripoint 0 0 0) (Tripoint 11 11 0)
           (load 11 (Tripoint 5 5 0) legacy_world) = Inr w2 \<and>
         get_tile (Tripoint 5 5 0) w2 = Inr \<lparr>tile = ''t_floor'', subtile = 2, rotation = 1\<rparr> \<and>
         get_symbol (Tripoint 5 5 0) w2 = Inr 46) \<and>
   get_submap (Tripoint 0 0 0) (load 11 (Tripoint 5 5 0) prepared_legacy_world) = Inr (Shared 3) \<and>
   get_tile (Tripoint 5 5 0) (load 11 (Tripoint 5 5 0) prepared_legacy_world) =
     Inr \<lparr>tile = ''t_floor'', subtile = 2, rotation = 1\<rparr> \<and>
   get_submap (Tripoint 0 0 0) (load 11 (Tripoint 5 5 0) legacy_world) = Inr Null_Mz_Submap \<and>
   get_tile (Tripoint 5 5 0) (load 11 (Tripoint 5 5 0) legacy_world) = Inr default_tile \<and>
   Tripoint (- 11) 10 0 \<in> fst ` set (submaps (load 11 (Tripoint 5 5 0) chunk_dir_world)) \<and>
   Tripoint 11 0 0 \<notin> fst ` set (submaps (load 11 (Tripoint 5 5 0) chunk_dir_world))"
proof -
  let ?es = "[(Tripoint 0 0 0, remembered_chunk)]"
  let ?f = "Legacy_File ?es"
  let ?q = "Tripoint 5 5 0"
  let ?w1 = "load 11 ?q legacy_world"
  let ?v1 = "load 11 ?q prepared_legacy_world"
  obtain w2 where w2: "prepare_region (Tripoint 0 0 0) (Tripoint 11 11 0) ?w1 = Inr w2"
    using prepare_region_returns [of "Tripoint 0 0 0" "Tripoint 11 11 0" ?w1] by auto
  have cs: "cache_size w2 = Point 2 2"
    using prepare_region_window [OF w2]
    by (simp add: mk_coord_pair_def ms_to_sm_remain_def xy_def SEEX_def SEEY_def
        tripoint_sub_point_def tripoint_sub_def point_add_def)
  have h: "\<not> dir_exist (find_mm_dir legacy_world) legacy_world \<and>
      files legacy_world (find_legacy_mm_file legacy_world) = Some ?f \<and>
      parse_legacy ?f = Inr ?es"
    by (simp add: example_paths)
       (simp add: legacy_world_def example_world_def dir_exist_def parse_legacy_def)
  have wf: "store_wf legacy_world \<and> distinct (map fst ?es)"
    by (simp add: store_wf_def legacy_world_def example_world_def)
  have rb: "cache_pos legacy_world \<noteq> cache_pos w2 \<or> cache_size legacy_world \<noteq> cache_size w2"
    by (simp add: cs) (simp add: legacy_world_def example_world_def)
  have c0: "Tripoint 0 0 0 = sm (mk_coord_pair ?q)"
    by (simp add: example_chunks)
  have mem: "(Tripoint 0 0 0, remembered_chunk) \<in> set ?es" by simp
  have ins: "sm (mk_coord_pair ?q) = Tripoint 0 0 0 \<and>
      tz ?q = tz (Tripoint 0 0 0) \<and>
      tx (Tripoint 0 0 0) \<le> tx ?q \<and> tx ?q \<le> tx (Tripoint 11 11 0) \<and>
      ty (Tripoint 0 0 0) \<le> ty ?q \<and> ty ?q \<le> ty (Tripoint 11 11 0)"
    by (simp add: example_chunks)
  note per_chunk = load_legacy_or_window [OF c0, where w = legacy_world and f = ?f and es = ?es
        and mapsize = 11, THEN conjunct1, THEN mp, OF h, THEN conjunct2, THEN conjunct2,
        THEN conjunct2, THEN conjunct2, THEN conjunct2, THEN mp, OF wf, THEN spec, THEN spec,
        THEN mp, OF mem]
  have "get_tile ?q w2 =
        Inr (tiles remembered_chunk (px (loc (mk_coord_pair ?q))) (py (loc (mk_coord_pair ?q)))) \<and>
      get_symbol ?q w2 =
        Inr (symbols remembered_chunk (px (loc (mk_coord_pair ?q))) (py (loc (mk_coord_pair ?q))))"
    by (rule per_chunk [THEN conjunct2, THEN conjunct2, THEN conjunct2, THEN spec, THEN spec,
        THEN spec, THEN spec, THEN mp, OF conjI [OF w2 conjI [OF rb ins]]])
  then have a: "get_tile ?q w2 = Inr (tiles remembered_chunk 5 5) \<and>
      get_symbol ?q w2 = Inr (symbols remembered_chunk 5 5)"
    by (simp add: example_chunks)
  have g1: "get_submap (Tripoint 0 0 0) ?w1 = Inr Null_Mz_Submap"
    by (simp add: legacy_world_load)
       (simp add: get_submap_def xy_def tripoint_sub_def legacy_world_def example_world_def)
  have "get_tile ?q ?w1 =
        Inr (tiles (null_mz_submap legacy_world) (px (loc (mk_coord_pair ?q)))
               (py (loc (mk_coord_pair ?q)))) \<and>
      get_symbol ?q ?w1 =
        Inr (symbols (null_mz_submap legacy_world) (px (loc (mk_coord_pair ?q)))
               (py (loc (mk_coord_pair ?q))))"
    by (rule per_chunk [THEN conjunct2, THEN conjunct2, THEN conjunct1, THEN spec, THEN mp,
        OF conjI [OF c0 [symmetric] g1]])
  then have s: "get_tile ?q ?w1 = Inr default_tile"
    by (simp add: legacy_world_def example_world_def new_memorized_submap_def)
  have h': "\<not> dir_exist (find_mm_dir prepared_legacy_world) prepared_legacy_world \<and>
      files prepared_legacy_world (find_legacy_mm_file prepared_legacy_world) = Some ?f \<and>
      parse_legacy ?f = Inr ?es"
    by (simp add: find_mm_dir_def find_legacy_mm_file_def dir_exist_def
        prepared_legacy_world_fields parse_legacy_def)
       (simp add: legacy_world_def)
  have wf': "store_wf prepared_legacy_world \<and> distinct (map fst ?es)"
    by (simp add: store_wf_def prepared_legacy_world_fields)
  have v1: "?v1 = prepared_legacy_world\<lparr>heap := (heap prepared_legacy_world)(3 \<mapsto> remembered_chunk)\<rparr>"
    using h'
    by (simp add: load_def Let_def load_legacy_def load_legacy_entry_def assign_def
        prepared_legacy_world_fields)
  have g2: "get_submap (Tripoint 0 0 0) ?v1 = Inr (Shared 3)"
    by (simp add: v1 get_submap_def xy_def tripoint_sub_def prepared_legacy_world_fields)
  have m2: "map_of (submaps ?v1) (Tripoint 0 0 0) = Some 3"
    by (simp add: v1 prepared_legacy_world_fields)
  have "get_tile ?q ?v1 =
        Inr (tiles remembered_chunk (px (loc (mk_coord_pair ?q))) (py (loc (mk_coord_pair ?q)))) \<and>
      get_symbol ?q ?v1 =
        Inr (symbols remembered_chunk (px (loc (mk_coord_pair ?q))) (py (loc (mk_coord_pair ?q))))"
    by (rule load_legacy_or_window [OF c0, where w = prepared_legacy_world and f = ?f and es = ?es
        and mapsize = 11, THEN conjunct1, THEN mp, OF h', THEN conjunct2, THEN conjunct2,
        THEN conjunct2, THEN conjunct2, THEN conjunct2, THEN mp, OF wf', THEN spec, THEN spec,
        THEN mp, OF mem, THEN conjunct2, THEN conjunct1, THEN spec, THEN spec, THEN mp,
        OF conjI [OF c0 [symmetric] conjI [OF g2 m2]]])
  then have b: "get_tile ?q ?v1 = Inr (tiles remembered_chunk 5 5)"
    by (simp add: example_chunks)
  have d: "dir_exist (find_mm_dir chunk_dir_world) chunk_dir_world"
    by (simp add: example_paths) (simp add: chunk_dir_world_def dir_exist_def)
  have "fst ` set (submaps (load 11 ?q chunk_dir_world)) =
      fst ` set (submaps chunk_dir_world) \<union>
      {tripoint_add (Tripoint 0 0 0) (Tripoint dx dy 0) | dx dy.
            - 11 \<le> dx \<and> dx < 11 \<and> - 11 \<le> dy \<and> dy < 11}"
    by (rule load_legacy_or_window [OF c0, where w = chunk_dir_world and mapsize = 11, THEN conjunct2, THEN mp,
        OF d, THEN conjunct2, THEN conjunct2, THEN conjunct2, THEN conjunct2, THEN conjunct1])
  then have k: "fst ` set (submaps (load 11 ?q chunk_dir_world)) =
      {tripoint_add (Tripoint 0 0 0) (Tripoint dx dy 0) | dx dy.
            - 11 \<le> dx \<and> dx < 11 \<and> - 11 \<le> dy \<and> dy < 11}"
    by (simp add: chunk_dir_world_def example_world_def)
  have e1: "Tripoint (- 11) 10 0 \<in> fst ` set (submaps (load 11 ?q chunk_dir_world))"
    unfolding k by (simp add: tripoint_add_def)
  have e2: "Tripoint 11 0 0 \<notin> fst ` set (submaps (load 11 ?q chunk_dir_world))"
    unfolding k by (simp add: tripoint_add_def)
  show ?thesis
    using w2 a b s g1 g2 e1 e2
    by (simp add: remembered_chunk_def set_tile_def set_symbol_def)
qed

end
